theory Spec2Isabelle
  imports Complex_Main "HOL-Library.Sublist"
begin

section \<open>Data model (lib/types.ts)\<close>

text \<open>
  Strings are lists of characters; every pattern the code matches against is ASCII.
  A nullable or optional string field is a \<open>string option\<close>.  A promise is modelled by
  its outcome: \<open>Inl\<close> of the rejection value, \<open>Inr\<close> of the value it resolves to.
\<close>

datatype js_error = Error (message: string) | NonError

type_synonym 'a promise = "js_error + 'a"

definition await :: "'a promise \<Rightarrow> ('a \<Rightarrow> 'b promise) \<Rightarrow> 'b promise" where
  "await p k = (case p of Inl e \<Rightarrow> Inl e | Inr v \<Rightarrow> k v)"

text \<open>JavaScript truthiness of a nullable string: present and not empty.\<close>

definition truthy :: "string option \<Rightarrow> bool" where
  "truthy s = (case s of None \<Rightarrow> False | Some v \<Rightarrow> v \<noteq> [])"

datatype provider = Gmail | Outlook | Yahoo | Imap

datatype email_type = Newsletter | Promo | Social | Transactional | Personal | Unknown

record ListUnsubscribe =
  http :: "string option"
  mailto :: "string option"

record Headers =
  precedence :: "string option"
  returnPath :: "string option"
  xMailer :: "string option"
  xCampaign :: "string option"
  xNewsletter :: "string option"
  xList :: "string option"
  xSgEid :: "string option"
  xMailgunSid :: "string option"
  xMailchimp :: "string option"

text \<open>
  \<open>NormalizedEmail\<close>.  The fields \<open>id\<close>, \<open>size\<close> and \<open>timestamp\<close> are written
  \<open>email_id\<close>, \<open>email_size\<close> and \<open>email_timestamp\<close>; the untyped \<open>metadata\<close> bag, which no
  engine reads, is left out.
\<close>

record NormalizedEmail =
  email_id :: string
  email_provider :: provider
  providerId :: string
  sender :: string
  senderName :: "string option"
  senderDomain :: string
  subject :: string
  preview :: string
  receivedAt :: string
  email_timestamp :: int
  listUnsubscribe :: ListUnsubscribe
  category :: email_type
  labels :: "string list"
  isRead :: bool
  email_size :: nat
  headers :: Headers

section \<open>Adaptive buffer (lib/engines/buffer.ts)\<close>

record BufferItem =
  email :: NormalizedEmail
  isBossField :: "bool option"
  groupCount :: "nat option"

text \<open>
  The three numbers of the configuration are counts; they are naturals here, for which
  \<open>slice(0, n)\<close> is \<open>take n\<close>.
\<close>

record BufferConfig =
  windowSize :: nat
  triggerThreshold :: nat
  batchSize :: nat

definition DEFAULT_CONFIG :: BufferConfig where
  "DEFAULT_CONFIG = \<lparr>windowSize = 30, triggerThreshold = 10, batchSize = 50\<rparr>"

record SwipeBuffer =
  fullQueue :: "NormalizedEmail list"
  activeWindow :: "BufferItem list"
  config :: BufferConfig
  isFetching :: bool

text \<open>
  The loop of \<open>groupIntoBosses\<close>: \<open>emails\<close> is the whole slice, the second argument what
  the \<open>for\<close> loop has still to visit, \<open>processed\<close> the set of ids marked so far.
\<close>

fun groupLoop ::
  "NormalizedEmail list \<Rightarrow> NormalizedEmail list \<Rightarrow> string set \<Rightarrow> BufferItem list" where
  "groupLoop emails [] processed = []"
| "groupLoop emails (e # rest) processed =
     (if email_id e \<in> processed then groupLoop emails rest processed
      else
        let sameDomain =
              filter (\<lambda>x. senderDomain x = senderDomain e \<and> email_id x \<notin> processed) emails
        in if length sameDomain \<ge> 5
           then \<lparr>email = sameDomain ! 0, isBossField = Some True,
                  groupCount = Some (length sameDomain)\<rparr>
                # groupLoop emails rest (processed \<union> set (map email_id sameDomain))
           else \<lparr>email = e, isBossField = None, groupCount = None\<rparr>
                # groupLoop emails rest (insert (email_id e) processed))"

definition groupIntoBosses :: "NormalizedEmail list \<Rightarrow> BufferItem list" where
  "groupIntoBosses emails = groupLoop emails emails {}"

definition syncWindow :: "SwipeBuffer \<Rightarrow> SwipeBuffer" where
  "syncWindow b =
     (let rawItems = take (windowSize (config b)) (fullQueue b)
      in b\<lparr>activeWindow := groupIntoBosses rawItems\<rparr>)"

text \<open>
  The constructor; \<open>cfg\<close> is the configuration after the defaults have been merged in.
  The refill callback is not stored: each consuming operation below is given the outcome
  of the one call it may make to it.
\<close>

definition construct :: "NormalizedEmail list \<Rightarrow> BufferConfig \<Rightarrow> SwipeBuffer" where
  "construct initialEmails cfg =
     syncWindow \<lparr>fullQueue = initialEmails, activeWindow = [], config = cfg,
                 isFetching = False\<rparr>"


text \<open>
  \<open>refill\<close>: a \<open>try\<close> with a \<open>finally\<close> and no \<open>catch\<close>.  The \<open>finally\<close> block runs on
  both paths, and a rejection of the callback leaves the function as a rejection.  The
  result pairs the outcome of the promise with the buffer as the call leaves it.
\<close>

definition refill ::
  "NormalizedEmail list promise \<Rightarrow> SwipeBuffer \<Rightarrow> unit promise \<times> SwipeBuffer" where
  "refill onRefillRequired b =
     (let b1 = b\<lparr>isFetching := True\<rparr>
      in case onRefillRequired of
           Inr newItems \<Rightarrow>
             (let uniqueNewItems =
                    filter (\<lambda>newItem. \<not> (\<exists>existing \<in> set (fullQueue b1).
                                             email_id existing = email_id newItem)) newItems;
                  b2 = b1\<lparr>fullQueue := fullQueue b1 @ uniqueNewItems\<rparr>
              in (Inr (), syncWindow (b2\<lparr>isFetching := False\<rparr>)))
         | Inl err \<Rightarrow> (Inl err, syncWindow (b1\<lparr>isFetching := False\<rparr>)))"

text \<open>
  What \<open>consumeItem\<close> and \<open>consumeBatch\<close> share after their two filters: the refill
  trigger, and the final \<open>syncWindow\<close>, which a rejected \<open>await\<close> skips.
\<close>

definition refillIfLow ::
  "NormalizedEmail list promise \<Rightarrow> SwipeBuffer \<Rightarrow> unit promise \<times> SwipeBuffer" where
  "refillIfLow onRefillRequired b =
     (if length (activeWindow b) \<le> triggerThreshold (config b) \<and> \<not> isFetching b
      then (case refill onRefillRequired b of
              (Inl err, b') \<Rightarrow> (Inl err, b')
            | (Inr u, b') \<Rightarrow> (Inr (), syncWindow b'))
      else (Inr (), syncWindow b))"

definition consumeItem ::
  "string \<Rightarrow> NormalizedEmail list promise \<Rightarrow> SwipeBuffer \<Rightarrow> unit promise \<times> SwipeBuffer" where
  "consumeItem i onRefillRequired b =
     refillIfLow onRefillRequired
       (b\<lparr>activeWindow := filter (\<lambda>item. email_id (email item) \<noteq> i) (activeWindow b),
          fullQueue := filter (\<lambda>e. email_id e \<noteq> i) (fullQueue b)\<rparr>)"

definition consumeBatch ::
  "string list \<Rightarrow> NormalizedEmail list promise \<Rightarrow> SwipeBuffer
     \<Rightarrow> unit promise \<times> SwipeBuffer" where
  "consumeBatch ids onRefillRequired b =
     (let idSet = set ids
      in refillIfLow onRefillRequired
           (b\<lparr>activeWindow := filter (\<lambda>item. email_id (email item) \<notin> idSet) (activeWindow b),
              fullQueue := filter (\<lambda>e. email_id e \<notin> idSet) (fullQueue b)\<rparr>))"

definition nukeDomain :: "string \<Rightarrow> SwipeBuffer \<Rightarrow> SwipeBuffer" where
  "nukeDomain domain b =
     syncWindow (b\<lparr>fullQueue := filter (\<lambda>e. senderDomain e \<noteq> domain) (fullQueue b)\<rparr>)"

section \<open>String operations\<close>

text \<open>
  The JavaScript string methods the engines use, on ASCII strings: \<open>toLowerCase\<close> changes
  the letters \<open>A\<close> to \<open>Z\<close> only, and a case-insensitive regular expression without
  anchors is a substring test on the lowered string.
\<close>

definition is_upper :: "char \<Rightarrow> bool" where
  "is_upper c = (65 \<le> (of_char c :: nat) \<and> (of_char c :: nat) \<le> 90)"

definition is_lower :: "char \<Rightarrow> bool" where
  "is_lower c = (97 \<le> (of_char c :: nat) \<and> (of_char c :: nat) \<le> 122)"

definition is_alpha :: "char \<Rightarrow> bool" where
  "is_alpha c = (is_upper c \<or> is_lower c)"

text \<open>The ASCII members of the class \<open>\s\<close>: tab, line feed, vertical tab, form feed,
  carriage return and space.\<close>

definition is_space :: "char \<Rightarrow> bool" where
  "is_space c = ((of_char c :: nat) \<in> {9, 10, 11, 12, 13, 32})"

definition lower_char :: "char \<Rightarrow> char" where
  "lower_char c = (if is_upper c then char_of ((of_char c :: nat) + 32) else c)"

definition toLowerCase :: "string \<Rightarrow> string" where
  "toLowerCase s = map lower_char s"

definition includes_str :: "string \<Rightarrow> string \<Rightarrow> bool" where
  "includes_str s p = sublist p s"

definition startsWith :: "string \<Rightarrow> string \<Rightarrow> bool" where
  "startsWith s p = prefix p s"

definition endsWith :: "string \<Rightarrow> string \<Rightarrow> bool" where
  "endsWith s p = suffix p s"

text \<open>\<open>s.split(c)\<close> for a one-character separator; the result is never empty.\<close>

fun splitOn :: "char \<Rightarrow> string \<Rightarrow> string list" where
  "splitOn c [] = [[]]"
| "splitOn c (x # xs) =
     (if x = c then [] # splitOn c xs
      else (case splitOn c xs of [] \<Rightarrow> [[x]] | h # t \<Rightarrow> (x # h) # t))"

text \<open>Reading an array at an index: \<open>undefined\<close> past the end.\<close>

definition at_index :: "'a list \<Rightarrow> nat \<Rightarrow> 'a option" where
  "at_index xs i = (if i < length xs then Some (xs ! i) else None)"

text \<open>\<open>/^[a-z]+[._][a-z]+$/i\<close>: letters, one dot or underscore, letters.\<close>

definition matchesNameLocalPart :: "string \<Rightarrow> bool" where
  "matchesNameLocalPart s =
     (case dropWhile is_alpha s of
        [] \<Rightarrow> False
      | c # b \<Rightarrow> takeWhile is_alpha s \<noteq> [] \<and> (c = CHR ''.'' \<or> c = CHR ''_'')
                 \<and> b \<noteq> [] \<and> list_all is_alpha b)"

text \<open>\<open>/^([A-Z][a-z]+)\s+([A-Z][a-z]+)$/\<close>: two capitalised words and white space
  between them.\<close>

definition matchesFirstLast :: "string \<Rightarrow> bool" where
  "matchesFirstLast s =
     (case s of
        [] \<Rightarrow> False
      | u # r \<Rightarrow>
          is_upper u \<and> takeWhile is_lower r \<noteq> [] \<and>
          (let r1 = dropWhile is_lower r
           in takeWhile is_space r1 \<noteq> [] \<and>
              (case dropWhile is_space r1 of
                 [] \<Rightarrow> False
               | u2 # r3 \<Rightarrow> is_upper u2 \<and> r3 \<noteq> [] \<and> list_all is_lower r3)))"

section \<open>Classification scorer and safety policy (lib/detection/newsletter.ts)\<close>

definition MARKETING_DOMAINS :: "string list" where
  "MARKETING_DOMAINS =
     [''mailchimp.com'', ''sendgrid.net'', ''mailgun.org'', ''constantcontact.com'',
      ''substack.com'', ''campaignmonitor.com'', ''convertkit.com'', ''klaviyo.com'',
      ''mailerlite.com'', ''sendinblue.com'', ''drip.com'', ''beehiiv.com'',
      ''getresponse.com'', ''activecampaign.com'', ''aweber.com'', ''mailjet.com'',
      ''sparkpost.com'', ''postmarkapp.com'', ''mandrill.com'', ''sailthru.com'',
      ''braze.com'', ''iterable.com'', ''customer.io'', ''intercom.com'']"

definition TRANSACTIONAL_PATTERNS :: "string list" where
  "TRANSACTIONAL_PATTERNS =
     [''noreply'', ''no-reply'', ''do-not-reply'', ''donotreply'', ''receipt'', ''order'',
      ''invoice'', ''confirmation'', ''shipping'', ''tracking'', ''security'', ''verify'',
      ''verification'', ''password'', ''reset'', ''account'', ''billing'', ''payment'',
      ''support'', ''help'', ''service'']"

definition transactionalSubjectPatterns :: "string list" where
  "transactionalSubjectPatterns =
     [''order confirmation'', ''shipping confirmation'', ''your receipt'', ''your order'',
      ''password reset'', ''verify your'', ''confirm your'', ''security alert'',
      ''login attempt'', ''payment received'', ''invoice'', ''statement'', ''appointment'',
      ''reservation'', ''booking confirmation'', ''flight'', ''itinerary'']"

definition personalDomains :: "string list" where
  "personalDomains =
     [''gmail.com'', ''yahoo.com'', ''hotmail.com'', ''outlook.com'', ''icloud.com'',
      ''aol.com'', ''protonmail.com'', ''zoho.com'', ''fastmail.com'']"

text \<open>\<open>DOMAIN_SAFETY\<close> of lib/types.ts.\<close>

definition neverNuke :: "string list" where
  "neverNuke =
     [''google.com'', ''gmail.com'', ''apple.com'', ''icloud.com'', ''microsoft.com'',
      ''amazon.com'', ''facebook.com'', ''meta.com'', ''twitter.com'', ''x.com'',
      ''linkedin.com'', ''gov'', ''edu'', ''mil'', ''chase.com'', ''bankofamerica.com'',
      ''wellsfargo.com'', ''citibank.com'', ''usbank.com'', ''united.com'', ''delta.com'',
      ''aa.com'', ''southwest.com'']"

definition caution :: "string list" where
  "caution =
     [''ebay.com'', ''etsy.com'', ''shopify.com'', ''netflix.com'', ''spotify.com'',
      ''hulu.com'', ''disneyplus.com'', ''hbomax.com'']"

definition safeToNuke :: "string list" where
  "safeToNuke =
     [''mailchimp.com'', ''sendgrid.net'', ''mailgun.org'', ''constantcontact.com'',
      ''substack.com'', ''campaignmonitor.com'', ''convertkit.com'', ''klaviyo.com'',
      ''mailerlite.com'', ''sendinblue.com'', ''drip.com'', ''beehiiv.com'', ''revue.co'',
      ''buttondown.email'', ''getresponse.com'', ''activecampaign.com'']"

definition isLikelyPersonalSender :: "NormalizedEmail \<Rightarrow> bool" where
  "isLikelyPersonalSender e =
     (if toLowerCase (senderDomain e) \<in> set personalDomains
         \<and> matchesNameLocalPart (splitOn CHR ''@'' (sender e) ! 0)
      then True
      else if truthy (senderName e) \<and> matchesFirstLast (the (senderName e))
      then True
      else False)"

definition isTransactional :: "NormalizedEmail \<Rightarrow> bool" where
  "isTransactional e =
     (let lowerSender = toLowerCase (sender e);
          lowerSubject = toLowerCase (subject e)
      in if list_ex (\<lambda>pattern. includes_str lowerSender pattern) TRANSACTIONAL_PATTERNS
         then True
         else if list_ex (\<lambda>pattern. includes_str lowerSubject pattern)
                   transactionalSubjectPatterns
         then True
         else False)"

definition checkListUnsubscribe :: "NormalizedEmail \<Rightarrow> real" where
  "checkListUnsubscribe e =
     (if truthy (http (listUnsubscribe e)) \<or> truthy (mailto (listUnsubscribe e))
      then 1.0 else 0)"

definition checkProviderCategory :: "NormalizedEmail \<Rightarrow> real" where
  "checkProviderCategory e =
     (if ''CATEGORY_PROMOTIONS'' \<in> set (labels e) \<or> ''CATEGORY_SOCIAL'' \<in> set (labels e)
      then 0.95
      else if ''CATEGORY_UPDATES'' \<in> set (labels e) then 0.5
      else 0)"

definition checkSenderDomain :: "NormalizedEmail \<Rightarrow> real" where
  "checkSenderDomain e =
     (let lowerDomain = toLowerCase (senderDomain e)
      in if list_ex (\<lambda>marketingDomain. includes_str lowerDomain marketingDomain)
              MARKETING_DOMAINS
         then 0.9
         else if truthy (returnPath (headers e)) then
           (let returnPathDomain =
                  map_option (\<lambda>d. remove1 CHR ''>'' (toLowerCase d))
                    (at_index (splitOn CHR ''@'' (the (returnPath (headers e)))) 1)
            in if list_ex (\<lambda>marketingDomain.
                     case returnPathDomain of None \<Rightarrow> False
                     | Some d \<Rightarrow> includes_str d marketingDomain) MARKETING_DOMAINS
               then 0.85 else 0)
         else 0)"

text \<open>\<open>analyzeHeaders\<close>: the running \<open>score\<close> is threaded through the eight checks.\<close>

definition raise_to :: "bool \<Rightarrow> real \<Rightarrow> real \<Rightarrow> real" where
  "raise_to cond w score = (if cond then max score w else score)"

definition analyzeHeaders :: "NormalizedEmail \<Rightarrow> real" where
  "analyzeHeaders e =
     (let h = headers e;
          score = 0;
          score = raise_to (map_option toLowerCase (precedence h) = Some ''bulk'') 0.8 score;
          score = raise_to (case xMailer h of None \<Rightarrow> False
                            | Some m \<Rightarrow> includes_str (toLowerCase m) ''campaign'') 0.7 score;
          score = raise_to (truthy (xList h)) 0.75 score;
          score = raise_to (truthy (xCampaign h)) 0.8 score;
          score = raise_to (truthy (xNewsletter h)) 0.9 score;
          score = raise_to (truthy (xSgEid h)) 0.75 score;
          score = raise_to (truthy (xMailgunSid h)) 0.75 score;
          score = raise_to (truthy (xMailchimp h)) 0.85 score
      in score)"

record SenderStats =
  frequencyScore :: real
  reputationScore :: real

record Signals =
  sig_listUnsubscribe :: bool
  sig_senderReputation :: real
  sig_providerCategory :: email_type
  sig_frequencyScore :: real
  sig_htmlSignals :: real
  sig_headerSignals :: real

record DetectionResult =
  dr_type :: email_type
  confidence :: real
  signals :: Signals

text \<open>\<open>x || d\<close> on numbers: zero is falsy.  The scores are real numbers here.\<close>

definition or_default :: "real option \<Rightarrow> real \<Rightarrow> real" where
  "or_default x d = (case x of None \<Rightarrow> d | Some v \<Rightarrow> if v = 0 then d else v)"

text \<open>The constant \<open>finalScore\<close> of \<open>detectNewsletter\<close>.\<close>

definition finalScore :: "NormalizedEmail \<Rightarrow> SenderStats option \<Rightarrow> real" where
  "finalScore e senderStats =
     (let listUnsubscribeScore = checkListUnsubscribe e;
          providerCategoryScore = checkProviderCategory e;
          senderDomainScore = checkSenderDomain e;
          headerScore = analyzeHeaders e;
          frequencyScore = or_default (map_option frequencyScore senderStats) 0;
          reputationScore = or_default (map_option reputationScore senderStats) 0.5
      in listUnsubscribeScore * 0.35 +
         max reputationScore senderDomainScore * 0.25 +
         providerCategoryScore * 0.2 +
         frequencyScore * 0.1 +
         0 * 0.05 +
         headerScore * 0.05)"

definition detectNewsletter :: "NormalizedEmail \<Rightarrow> SenderStats option \<Rightarrow> DetectionResult" where
  "detectNewsletter e senderStats =
     (if isTransactional e then
        \<lparr>dr_type = Transactional, confidence = 0.9,
         signals = \<lparr>sig_listUnsubscribe = False, sig_senderReputation = 0,
                    sig_providerCategory = category e, sig_frequencyScore = 0,
                    sig_htmlSignals = 0, sig_headerSignals = 0\<rparr>\<rparr>
      else if isLikelyPersonalSender e then
        \<lparr>dr_type = Personal, confidence = 0.8,
         signals = \<lparr>sig_listUnsubscribe = False, sig_senderReputation = 0,
                    sig_providerCategory = category e, sig_frequencyScore = 0,
                    sig_htmlSignals = 0, sig_headerSignals = 0\<rparr>\<rparr>
      else
        let score = finalScore e senderStats;
            t = (if score \<ge> 0.75 then Newsletter
                 else if score \<ge> 0.5 then Promo
                 else if score \<ge> 0.3 then Social
                 else Unknown);
            t = (if ''CATEGORY_PROMOTIONS'' \<in> set (labels e) \<and> t = Unknown then Promo
                 else if ''CATEGORY_SOCIAL'' \<in> set (labels e) \<and> t = Unknown then Social
                 else t)
        in \<lparr>dr_type = t, confidence = min score 1,
            signals = \<lparr>sig_listUnsubscribe = (checkListUnsubscribe e > 0),
                       sig_senderReputation =
                         or_default (map_option reputationScore senderStats) 0.5,
                       sig_providerCategory = category e,
                       sig_frequencyScore =
                         or_default (map_option frequencyScore senderStats) 0,
                       sig_htmlSignals = 0,
                       sig_headerSignals = analyzeHeaders e\<rparr>\<rparr>)"

datatype domain_safety = SafeToNuke | Caution | NeverNuke | UnknownSafety

definition domainMatches :: "string \<Rightarrow> string \<Rightarrow> bool" where
  "domainMatches lowerDomain d = (lowerDomain = d \<or> endsWith lowerDomain (CHR ''.'' # d))"

definition getDomainSafetyCategory :: "string \<Rightarrow> domain_safety" where
  "getDomainSafetyCategory domain =
     (let lowerDomain = toLowerCase domain
      in if list_ex (domainMatches lowerDomain) neverNuke then NeverNuke
         else if list_ex (domainMatches lowerDomain) caution then Caution
         else if list_ex (domainMatches lowerDomain) safeToNuke then SafeToNuke
         else UnknownSafety)"

record BlockCheck =
  allowed :: bool
  reason :: "string option"

definition canBlockSender :: "NormalizedEmail \<Rightarrow> BlockCheck" where
  "canBlockSender e =
     (if isLikelyPersonalSender e
      then \<lparr>allowed = False, reason = Some ''Cannot block personal senders''\<rparr>
      else if isTransactional e
      then \<lparr>allowed = False, reason = Some ''Cannot block transactional senders''\<rparr>
      else if getDomainSafetyCategory (senderDomain e) = NeverNuke
      then \<lparr>allowed = False, reason = Some ''Cannot block senders from protected domains''\<rparr>
      else \<lparr>allowed = True, reason = None\<rparr>)"

record NukeCheck =
  nc_allowed :: bool
  nc_requiresConfirmation :: bool
  nc_reason :: "string option"

definition canNukeDomain :: "string \<Rightarrow> NukeCheck" where
  "canNukeDomain domain =
     (let safety = getDomainSafetyCategory domain
      in if safety = NeverNuke
         then \<lparr>nc_allowed = False, nc_requiresConfirmation = False,
               nc_reason = Some ''This domain cannot be nuked (protected)''\<rparr>
         else if safety = Caution
         then \<lparr>nc_allowed = True, nc_requiresConfirmation = True,
               nc_reason =
                 Some ''This domain may contain important emails. Please confirm.''\<rparr>
         else \<lparr>nc_allowed = True, nc_requiresConfirmation = False, nc_reason = None\<rparr>)"

section \<open>Unsubscribe engine (lib/engines/unsubscribe.ts)\<close>

definition SUSPICIOUS_PATTERNS :: "string list" where
  "SUSPICIOUS_PATTERNS =
     [''track.'', ''redirect.'', ''click.'', ''bit.ly'', ''t.co'', ''goo.gl'', ''tinyurl'',
      ''ow.ly'']"

definition isSuspiciousLink :: "string \<Rightarrow> bool" where
  "isSuspiciousLink url =
     list_ex (\<lambda>pattern. includes_str (toLowerCase url) pattern) SUSPICIOUS_PATTERNS"

record SafetyCheck =
  safe :: bool
  requiresConfirmation :: bool
  sc_reason :: "string option"

definition checkUnsubscribeSafety :: "NormalizedEmail \<Rightarrow> SafetyCheck" where
  "checkUnsubscribeSafety e =
     (let blockCheck = canBlockSender e
      in if \<not> allowed blockCheck
         then \<lparr>safe = False, requiresConfirmation = False, sc_reason = reason blockCheck\<rparr>
         else if truthy (http (listUnsubscribe e))
                 \<and> isSuspiciousLink (the (http (listUnsubscribe e)))
         then \<lparr>safe = True, requiresConfirmation = True,
               sc_reason = Some ''Unsubscribe link looks suspicious. Please confirm.''\<rparr>
         else if getDomainSafetyCategory (senderDomain e) = Caution
         then \<lparr>safe = True, requiresConfirmation = True,
               sc_reason =
                 Some ''This sender is from a domain that may send important emails.''\<rparr>
         else \<lparr>safe = True, requiresConfirmation = False, sc_reason = None\<rparr>)"

text \<open>
  The network.  \<open>fetch k url m\<close> is the outcome of the request that the attempt with
  \<open>retryCount = k\<close> makes to \<open>url\<close> with method \<open>m\<close>: the status of the response, or the
  rejection (a timeout aborts the request, which rejects).
\<close>

datatype http_method = GET | POST

type_synonym fetch = "nat \<Rightarrow> string \<Rightarrow> http_method \<Rightarrow> nat promise"

datatype http_error = HttpsOnly | HttpStatus nat | Caught js_error

record HttpResult =
  hr_success :: bool
  hr_error :: "http_error option"

definition response_ok :: "nat \<Rightarrow> bool" where
  "response_ok status = (200 \<le> status \<and> status \<le> 299)"

text \<open>One pass through the body of the \<open>try\<close> block, up to the decision to retry.\<close>

datatype attempt = Succeeded | Failed nat | Threw js_error

definition httpAttempt :: "fetch \<Rightarrow> string \<Rightarrow> nat \<Rightarrow> attempt" where
  "httpAttempt fetch url retryCount =
     (case fetch retryCount url GET of
        Inl err \<Rightarrow> Threw err
      | Inr status \<Rightarrow>
          if response_ok status \<or> status = 204 then Succeeded
          else if status = 405 \<or> status = 400 then
            (case fetch retryCount url POST of
               Inl err \<Rightarrow> Threw err
             | Inr postStatus \<Rightarrow>
                 if response_ok postStatus \<or> postStatus = 204 then Succeeded
                 else Failed status)
          else Failed status)"

function httpUnsubscribe :: "fetch \<Rightarrow> string \<Rightarrow> nat \<Rightarrow> HttpResult" where
  "httpUnsubscribe fetch url retryCount =
     (if \<not> startsWith url ''https://''
      then \<lparr>hr_success = False, hr_error = Some HttpsOnly\<rparr>
      else case httpAttempt fetch url retryCount of
             Succeeded \<Rightarrow> \<lparr>hr_success = True, hr_error = None\<rparr>
           | Failed status \<Rightarrow>
               if retryCount = 0 then httpUnsubscribe fetch url 1
               else \<lparr>hr_success = False, hr_error = Some (HttpStatus status)\<rparr>
           | Threw err \<Rightarrow>
               if retryCount = 0 then httpUnsubscribe fetch url 1
               else \<lparr>hr_success = False, hr_error = Some (Caught err)\<rparr>)"
  by pat_completeness auto
termination
  by (relation "measure (\<lambda>(fetch, url, retryCount). 1 - retryCount)") auto

text \<open>
  \<open>new URL(...)\<close> is a parameter: it gives the path and the query parameters of the
  address, or \<open>None\<close> where the constructor throws.
\<close>

type_synonym url_parser = "string \<Rightarrow> (string \<times> (string \<times> string) list) option"

record MailtoData =
  md_to :: string
  md_subject :: string
  md_body :: string

definition prepareMailtoUnsubscribe :: "url_parser \<Rightarrow> string \<Rightarrow> MailtoData" where
  "prepareMailtoUnsubscribe parseURL mailtoAddress =
     (case parseURL (''mailto:'' @ mailtoAddress) of
        None \<Rightarrow>
          \<lparr>md_to = mailtoAddress, md_subject = ''unsubscribe'', md_body = ''unsubscribe''\<rparr>
      | Some (pathname, params) \<Rightarrow>
          \<lparr>md_to = pathname,
           md_subject = (if truthy (map_of params ''subject'')
                         then the (map_of params ''subject'') else ''unsubscribe''),
           md_body = (if truthy (map_of params ''body'')
                      then the (map_of params ''body'') else ''unsubscribe'')\<rparr>)"

datatype unsubscribe_method = HttpMethod | MailtoMethod | ProviderMethod | BlockMethod
  | SpamMethod

datatype unsubscribe_metadata =
    UnsubError "string option"
  | UnsubRequiresConfirmation "string option"
  | UnsubUrl string
  | UnsubMailto string
  | UnsubSender string
  | UnsubEmailId string

record UnsubscribeResult =
  ur_success :: bool
  ur_method :: unsubscribe_method
  fallbackUsed :: bool
  ur_undoToken :: "string option"
  ur_metadata :: unsubscribe_metadata

record UnsubscribeOptions =
  confirmUnsafe :: "bool option"
  sendMailto :: "(string \<Rightarrow> string \<Rightarrow> string \<Rightarrow> bool promise) option"
  createBlockFilter :: "(string \<Rightarrow> bool promise) option"
  markAsSpam :: "(string \<Rightarrow> bool promise) option"

text \<open>
  One stage of the fallback chain: where the capability is there it is awaited, a true
  answer ends the chain with \<open>result\<close>, a false one falls through to \<open>otherwise\<close>.
\<close>

definition stage ::
  "bool promise option \<Rightarrow> UnsubscribeResult \<Rightarrow> UnsubscribeResult promise
     \<Rightarrow> UnsubscribeResult promise" where
  "stage call result otherwise =
     (case call of
        None \<Rightarrow> otherwise
      | Some p \<Rightarrow> await p (\<lambda>succeeded. if succeeded then Inr result else otherwise))"

text \<open>\<open>undoToken\<close> is the value of the call to \<open>uuidv4()\<close>.\<close>

definition executeUnsubscribe ::
  "fetch \<Rightarrow> url_parser \<Rightarrow> string \<Rightarrow> NormalizedEmail \<Rightarrow> UnsubscribeOptions
     \<Rightarrow> UnsubscribeResult promise" where
  "executeUnsubscribe fetch parseURL undoToken e options =
     (let safetyCheck = checkUnsubscribeSafety e;
          lu = listUnsubscribe e
      in if \<not> safe safetyCheck
         then Inr \<lparr>ur_success = False, ur_method = HttpMethod, fallbackUsed = False,
                   ur_undoToken = None, ur_metadata = UnsubError (sc_reason safetyCheck)\<rparr>
         else if requiresConfirmation safetyCheck \<and> confirmUnsafe options \<noteq> Some True
         then Inr \<lparr>ur_success = False, ur_method = HttpMethod, fallbackUsed = False,
                   ur_undoToken = None,
                   ur_metadata = UnsubRequiresConfirmation (sc_reason safetyCheck)\<rparr>
         else if truthy (http lu) \<and> hr_success (httpUnsubscribe fetch (the (http lu)) 0)
         then Inr \<lparr>ur_success = True, ur_method = HttpMethod, fallbackUsed = False,
                   ur_undoToken = Some undoToken, ur_metadata = UnsubUrl (the (http lu))\<rparr>
         else
           stage (if truthy (mailto lu)
                  then map_option
                         (\<lambda>send. let mailtoData =
                                       prepareMailtoUnsubscribe parseURL (the (mailto lu))
                                  in send (md_to mailtoData) (md_subject mailtoData)
                                       (md_body mailtoData))
                         (sendMailto options)
                  else None)
             \<lparr>ur_success = True, ur_method = MailtoMethod, fallbackUsed = False,
              ur_undoToken = Some undoToken, ur_metadata = UnsubMailto (the (mailto lu))\<rparr>
          (stage (map_option (\<lambda>create. create (sender e)) (createBlockFilter options))
             \<lparr>ur_success = True, ur_method = BlockMethod, fallbackUsed = True,
              ur_undoToken = Some undoToken, ur_metadata = UnsubSender (sender e)\<rparr>
          (stage (map_option (\<lambda>mark. mark (email_id e)) (markAsSpam options))
             \<lparr>ur_success = True, ur_method = SpamMethod, fallbackUsed = True,
              ur_undoToken = Some undoToken, ur_metadata = UnsubEmailId (email_id e)\<rparr>
          (Inr \<lparr>ur_success = False, ur_method = HttpMethod, fallbackUsed = True,
                ur_undoToken = None,
                ur_metadata = UnsubError (Some ''All unsubscribe methods failed'')\<rparr>))))"

section \<open>Block and domain-nuke engine (lib/engines/block.ts)\<close>

record FilterResult =
  fr_success :: bool
  fr_filterId :: "string option"

record BlockOptions =
  createFilter :: "string \<Rightarrow> FilterResult promise"
  deleteEmails :: "string list \<Rightarrow> bool promise"
  getEmailsFromSender :: "string \<Rightarrow> string list promise"
  bo_confirmUnsafe :: "bool option"

record BlockMetadata =
  bm_sender :: string
  bm_domain :: string
  filterId :: "string option"
  emailsDeleted :: nat

record NukeMetadata =
  nm_domain :: string
  sendersBlocked :: nat
  nm_emailsDeleted :: nat
  nm_filterId :: "string option"

datatype block_action = BlockAction | DomainNukeAction

record 'm BlockResult =
  br_success :: bool
  br_action :: block_action
  br_undoToken :: "string option"
  br_metadata :: 'm

text \<open>
  The bulk move to trash of both engines: not attempted for an empty list, and counted
  only where the capability answers true.
\<close>

definition deleteExisting :: "(string list \<Rightarrow> bool promise) \<Rightarrow> string list \<Rightarrow> nat promise" where
  "deleteExisting delete existingEmails =
     (if length existingEmails > 0
      then await (delete existingEmails)
             (\<lambda>deleteSuccess. Inr (if deleteSuccess then length existingEmails else 0))
      else Inr 0)"

definition blockSender ::
  "string \<Rightarrow> NormalizedEmail \<Rightarrow> BlockOptions \<Rightarrow> BlockMetadata BlockResult promise" where
  "blockSender undoToken e options =
     (let safetyCheck = canBlockSender e
      in if \<not> allowed safetyCheck
         then Inr \<lparr>br_success = False, br_action = BlockAction, br_undoToken = None,
                   br_metadata = \<lparr>bm_sender = sender e, bm_domain = senderDomain e,
                                  filterId = None, emailsDeleted = 0\<rparr>\<rparr>
         else
           await (createFilter options (sender e)) (\<lambda>filterResult.
             if \<not> fr_success filterResult
             then Inr \<lparr>br_success = False, br_action = BlockAction, br_undoToken = None,
                       br_metadata = \<lparr>bm_sender = sender e, bm_domain = senderDomain e,
                                      filterId = None, emailsDeleted = 0\<rparr>\<rparr>
             else
               await (getEmailsFromSender options (sender e)) (\<lambda>existingEmails.
               await (deleteExisting (deleteEmails options) existingEmails) (\<lambda>deleted.
                 Inr \<lparr>br_success = True, br_action = BlockAction,
                      br_undoToken = Some undoToken,
                      br_metadata = \<lparr>bm_sender = sender e, bm_domain = senderDomain e,
                                     filterId = fr_filterId filterResult,
                                     emailsDeleted = deleted\<rparr>\<rparr>))))"

record NukeOptions =
  createDomainFilter :: "string \<Rightarrow> FilterResult promise"
  no_deleteEmails :: "string list \<Rightarrow> bool promise"
  getEmailsFromDomain :: "string \<Rightarrow> string list promise"
  getSendersFromDomain :: "string \<Rightarrow> string list promise"
  confirmCaution :: "bool option"

text \<open>\<open>nukeDomain\<close> of block.ts; the name without prefix is the buffer's method.\<close>

definition block_nukeDomain ::
  "string \<Rightarrow> string \<Rightarrow> NukeOptions \<Rightarrow> NukeMetadata BlockResult promise" where
  "block_nukeDomain undoToken domain options =
     (let safetyCheck = canNukeDomain domain;
          refused = Inr \<lparr>br_success = False, br_action = DomainNukeAction,
                         br_undoToken = None,
                         br_metadata = \<lparr>nm_domain = domain, sendersBlocked = 0,
                                        nm_emailsDeleted = 0, nm_filterId = None\<rparr>\<rparr>
      in if \<not> nc_allowed safetyCheck then refused
         else if nc_requiresConfirmation safetyCheck \<and> confirmCaution options \<noteq> Some True
         then refused
         else
           await (getSendersFromDomain options domain) (\<lambda>senders.
           await (getEmailsFromDomain options domain) (\<lambda>existingEmails.
           await (deleteExisting (no_deleteEmails options) existingEmails) (\<lambda>deleted.
           await (createDomainFilter options domain) (\<lambda>filterResult.
             if \<not> fr_success filterResult
             then Inr \<lparr>br_success = False, br_action = DomainNukeAction,
                       br_undoToken = None,
                       br_metadata = \<lparr>nm_domain = domain, sendersBlocked = length senders,
                                      nm_emailsDeleted = deleted, nm_filterId = None\<rparr>\<rparr>
             else Inr \<lparr>br_success = True, br_action = DomainNukeAction,
                       br_undoToken = Some undoToken,
                       br_metadata = \<lparr>nm_domain = domain, sendersBlocked = length senders,
                                      nm_emailsDeleted = deleted,
                                      nm_filterId = fr_filterId filterResult\<rparr>\<rparr>)))))"

section \<open>Action engine (lib/engines/actions.ts)\<close>

datatype SwipeAction = Delete | Unsubscribe | Block | Keep | Nuke

record UndoData =
  u_action :: SwipeAction
  u_emailId :: string
  u_providerId :: string
  u_sender :: string
  u_domain :: string
  u_filterId :: "string option"
  u_messageIds :: "string list option"
  timestamp :: int

text \<open>The module's \<open>undoStore\<close>, a \<open>Map\<close> from tokens to records.\<close>

type_synonym undo_store = "string \<rightharpoonup> UndoData"

definition undoWindowMs :: int where
  "undoWindowMs = 30000"

datatype action_metadata =
    MetaEmailId string
  | MetaError string
  | MetaUnsubscribe unsubscribe_metadata
  | MetaBlock BlockMetadata
  | MetaKeep string string string
  | MetaNuke NukeMetadata

record ActionResult =
  success :: bool
  action :: SwipeAction
  undoToken :: "string option"
  undoExpiry :: "int option"
  metadata :: action_metadata

text \<open>
  The functions of providers/gmail, which take the client built from the credentials, are
  parameters.  A filter is created for a sender address or for a domain.
\<close>

datatype filter_target = SenderEmail string | FilterDomain string

record GmailApi =
  trashEmail :: "string \<Rightarrow> bool promise"
  untrashEmail :: "string \<Rightarrow> bool promise"
  gmail_createBlockFilter :: "filter_target \<Rightarrow> FilterResult promise"
  deleteFilter :: "string \<Rightarrow> bool promise"
  gmail_getEmailsFromSender :: "string \<Rightarrow> string list promise"
  gmail_getEmailsFromDomain :: "string \<Rightarrow> string list promise"
  batchModifyEmails :: "string list \<Rightarrow> string list \<Rightarrow> string list \<Rightarrow> bool promise"
  gmail_markAsSpam :: "string \<Rightarrow> bool promise"

text \<open>
  What one call of \<open>executeAction\<close> reads from its environment: the token \<open>uuidv4()\<close>
  returns to it, the token it returns to the engine the call delegates to, the clock at
  entry and the clock when the undo record is stored, the provider, the network and the
  URL parser.
\<close>

record Env =
  uuid :: string
  engine_uuid :: string
  now :: int
  now_stored :: int
  gmail :: GmailApi
  net :: fetch
  parseURL :: url_parser

record ActionOptions =
  confirmDomainNuke :: "bool option"
  opt_domain :: "string option"

definition executeAction ::
  "Env \<Rightarrow> SwipeAction \<Rightarrow> NormalizedEmail \<Rightarrow> ActionOptions \<Rightarrow> undo_store
     \<Rightarrow> ActionResult promise \<times> undo_store" where
  "executeAction env act e options undoStore =
     (let token = uuid env;
          expiry = now env + undoWindowMs;
          trash = (\<lambda>messageIds. batchModifyEmails (gmail env) messageIds [''INBOX'']
                                   [''TRASH''])
      in case act of
           Delete \<Rightarrow>
             (case trashEmail (gmail env) (providerId e) of
                Inl err \<Rightarrow> (Inl err, undoStore)
              | Inr ok \<Rightarrow>
                  if ok
                  then (Inr \<lparr>success = True, action = Delete, undoToken = Some token,
                             undoExpiry = Some expiry, metadata = MetaEmailId (email_id e)\<rparr>,
                        undoStore(token \<mapsto>
                          \<lparr>u_action = Delete, u_emailId = email_id e,
                           u_providerId = providerId e, u_sender = sender e,
                           u_domain = senderDomain e, u_filterId = None,
                           u_messageIds = None, timestamp = now_stored env\<rparr>))
                  else (Inr \<lparr>success = False, action = Delete, undoToken = None,
                             undoExpiry = None,
                             metadata = MetaError ''Failed to delete email''\<rparr>, undoStore))
         | Unsubscribe \<Rightarrow>
             (case executeUnsubscribe (net env) (parseURL env) (engine_uuid env) e
                     \<lparr>confirmUnsafe = None, sendMailto = None,
                      createBlockFilter =
                        Some (\<lambda>s. await (gmail_createBlockFilter (gmail env) (SenderEmail s))
                                     (\<lambda>filterResult. Inr (fr_success filterResult))),
                      markAsSpam = Some (\<lambda>emailId. gmail_markAsSpam (gmail env) emailId)\<rparr> of
                Inl err \<Rightarrow> (Inl err, undoStore)
              | Inr result \<Rightarrow>
                  if ur_success result \<and> truthy (ur_undoToken result)
                  then (Inr \<lparr>success = True, action = Unsubscribe, undoToken = Some token,
                             undoExpiry = Some expiry,
                             metadata = MetaUnsubscribe (ur_metadata result)\<rparr>,
                        undoStore(token \<mapsto>
                          \<lparr>u_action = Unsubscribe, u_emailId = email_id e,
                           u_providerId = providerId e, u_sender = sender e,
                           u_domain = senderDomain e, u_filterId = None,
                           u_messageIds = None, timestamp = now_stored env\<rparr>))
                  else (Inr \<lparr>success = False, action = Unsubscribe, undoToken = None,
                             undoExpiry = None,
                             metadata = MetaUnsubscribe (ur_metadata result)\<rparr>, undoStore))
         | Block \<Rightarrow>
             (case blockSender (engine_uuid env) e
                     \<lparr>createFilter =
                        (\<lambda>s. gmail_createBlockFilter (gmail env) (SenderEmail s)),
                      deleteEmails = trash,
                      getEmailsFromSender = (\<lambda>s. gmail_getEmailsFromSender (gmail env) s),
                      bo_confirmUnsafe = None\<rparr> of
                Inl err \<Rightarrow> (Inl err, undoStore)
              | Inr result \<Rightarrow>
                  if br_success result
                  then (Inr \<lparr>success = True, action = Block, undoToken = Some token,
                             undoExpiry = Some expiry,
                             metadata = MetaBlock (br_metadata result)\<rparr>,
                        undoStore(token \<mapsto>
                          \<lparr>u_action = Block, u_emailId = email_id e,
                           u_providerId = providerId e, u_sender = sender e,
                           u_domain = senderDomain e,
                           u_filterId = filterId (br_metadata result),
                           u_messageIds = None, timestamp = now_stored env\<rparr>))
                  else (Inr \<lparr>success = False, action = Block, undoToken = None,
                             undoExpiry = None,
                             metadata = MetaBlock (br_metadata result)\<rparr>, undoStore))
         | Keep \<Rightarrow>
             (Inr \<lparr>success = True, action = Keep, undoToken = Some token,
                   undoExpiry = Some expiry,
                   metadata = MetaKeep (email_id e) (sender e) (senderDomain e)\<rparr>,
              undoStore)
         | Nuke \<Rightarrow>
             (let domain = (if truthy (opt_domain options) then the (opt_domain options)
                            else senderDomain e)
              in case block_nukeDomain (engine_uuid env) domain
                        \<lparr>createDomainFilter =
                           (\<lambda>d. gmail_createBlockFilter (gmail env) (FilterDomain d)),
                         no_deleteEmails = trash,
                         getEmailsFromDomain =
                           (\<lambda>d. gmail_getEmailsFromDomain (gmail env) d),
                         getSendersFromDomain = (\<lambda>d. Inr []),
                         confirmCaution = confirmDomainNuke options\<rparr> of
                   Inl err \<Rightarrow> (Inl err, undoStore)
                 | Inr result \<Rightarrow>
                     if br_success result
                     then (Inr \<lparr>success = True, action = Nuke, undoToken = Some token,
                                undoExpiry = Some expiry,
                                metadata = MetaNuke (br_metadata result)\<rparr>,
                           undoStore(token \<mapsto>
                             \<lparr>u_action = Nuke, u_emailId = email_id e,
                              u_providerId = providerId e, u_sender = sender e,
                              u_domain = domain,
                              u_filterId = nm_filterId (br_metadata result),
                              u_messageIds = None, timestamp = now_stored env\<rparr>))
                     else (Inr \<lparr>success = False, action = Nuke, undoToken = None,
                                undoExpiry = None,
                                metadata = MetaNuke (br_metadata result)\<rparr>, undoStore)))"

record UndoResult =
  undo_success :: bool
  undo_error :: "string option"

text \<open>The \<open>catch\<close> of \<open>undoAction\<close> turns what was thrown into an error text.\<close>

definition caught_text :: "js_error \<Rightarrow> string" where
  "caught_text err = (case err of Error m \<Rightarrow> m | NonError \<Rightarrow> ''Unknown error'')"

text \<open>
  \<open>undoAction\<close>: \<open>t\<close> is the clock when the call checks the window.  Every rejection of
  a provider call is caught, so the call always resolves; the result pairs the value with
  the store as the call leaves it.
\<close>

definition undoAction ::
  "GmailApi \<Rightarrow> int \<Rightarrow> string \<Rightarrow> undo_store \<Rightarrow> UndoResult \<times> undo_store" where
  "undoAction api t token undoStore =
     (case undoStore token of
        None \<Rightarrow>
          (\<lparr>undo_success = False, undo_error = Some ''Undo token not found or expired''\<rparr>,
           undoStore)
      | Some undoData \<Rightarrow>
          if t - timestamp undoData > undoWindowMs
          then (\<lparr>undo_success = False, undo_error = Some ''Undo window has expired''\<rparr>,
                undoStore(token := None))
          else
            let done = (\<lparr>undo_success = True, undo_error = None\<rparr>,
                        undoStore(token := None));
                failed = (\<lambda>text. (\<lparr>undo_success = False, undo_error = Some text\<rparr>,
                                   undoStore));
                restore = (\<lambda>call text.
                             case call of
                               Inl err \<Rightarrow> failed (caught_text err)
                             | Inr ok \<Rightarrow> if ok then done else failed text);
                removeFilter =
                  (if truthy (u_filterId undoData)
                   then restore (deleteFilter api (the (u_filterId undoData)))
                          ''Failed to delete filter''
                   else done)
            in (case u_action undoData of
                  Delete \<Rightarrow>
                    restore (untrashEmail api (u_providerId undoData))
                      ''Failed to untrash email''
                | Block \<Rightarrow> removeFilter
                | Nuke \<Rightarrow> removeFilter
                | Unsubscribe \<Rightarrow> done
                | Keep \<Rightarrow> done))"

text \<open>\<open>getRemainingUndoTime\<close>, with the clock as an argument.\<close>

definition getRemainingUndoTime :: "int \<Rightarrow> string \<Rightarrow> undo_store \<Rightarrow> int option" where
  "getRemainingUndoTime t token undoStore =
     (case undoStore token of
        None \<Rightarrow> None
      | Some undoData \<Rightarrow>
          (let elapsed = t - timestamp undoData;
               remaining = undoWindowMs - elapsed
           in if remaining > 0 then Some remaining else None))"

section \<open>Sample data and operation sequences\<close>

text \<open>
  An email of the shape \<open>MockEmailProvider.fetchBatch\<close> produces, with the parts that
  call draws at random as arguments.
\<close>

definition mockEmail :: "string \<Rightarrow> string \<Rightarrow> string \<Rightarrow> string \<Rightarrow> NormalizedEmail" where
  "mockEmail i name d subj =
     \<lparr>email_id = i, email_provider = Gmail, providerId = ''g-'' @ i,
      sender = ''contact@'' @ d, senderName = Some name, senderDomain = d,
      subject = subj, preview = ''This is a simulated preview'', receivedAt = [],
      email_timestamp = 0,
      listUnsubscribe = \<lparr>http = Some ''http://unsub.com'', mailto = None\<rparr>,
      category = Newsletter, labels = [''inbox''], isRead = False, email_size = 1024,
      headers = \<lparr>precedence = None, returnPath = None, xMailer = None, xCampaign = None,
                 xNewsletter = None, xList = None, xSgEid = None, xMailgunSid = None,
                 xMailchimp = None\<rparr>\<rparr>"

text \<open>A provider whose every call resolves, with the same answer \<open>ok\<close>.\<close>

definition stubGmail :: "bool \<Rightarrow> GmailApi" where
  "stubGmail ok =
     \<lparr>trashEmail = (\<lambda>providerId. Inr ok), untrashEmail = (\<lambda>providerId. Inr ok),
      gmail_createBlockFilter =
        (\<lambda>target. Inr \<lparr>fr_success = ok, fr_filterId = Some ''filter-1''\<rparr>),
      deleteFilter = (\<lambda>filterId. Inr ok),
      gmail_getEmailsFromSender = (\<lambda>s. Inr []),
      gmail_getEmailsFromDomain = (\<lambda>d. Inr []),
      batchModifyEmails = (\<lambda>messageIds removeLabelIds addLabelIds. Inr ok),
      gmail_markAsSpam = (\<lambda>emailId. Inr ok)\<rparr>"




text \<open>The number of queue entries a window item stands for.\<close>

definition standsFor :: "BufferItem \<Rightarrow> nat" where
  "standsFor item = (case groupCount item of None \<Rightarrow> 1 | Some n \<Rightarrow> n)"

text \<open>Five emails of one domain interleaved with four of another, with the ids 1 to 9.\<close>

definition fiveAndFour :: "NormalizedEmail list" where
  "fiveAndFour =
     [mockEmail ''1'' ''Spam Lord'' ''spam.com'' ''Your weekly digest'',
      mockEmail ''2'' ''Dev Ops Weekly'' ''dev.to'' ''Did you miss this?'',
      mockEmail ''3'' ''Spam Lord'' ''spam.com'' ''Your weekly digest'',
      mockEmail ''4'' ''Dev Ops Weekly'' ''dev.to'' ''Did you miss this?'',
      mockEmail ''5'' ''Spam Lord'' ''spam.com'' ''Your weekly digest'',
      mockEmail ''6'' ''Dev Ops Weekly'' ''dev.to'' ''Did you miss this?'',
      mockEmail ''7'' ''Spam Lord'' ''spam.com'' ''Your weekly digest'',
      mockEmail ''8'' ''Dev Ops Weekly'' ''dev.to'' ''Did you miss this?'',
      mockEmail ''9'' ''Spam Lord'' ''spam.com'' ''Your weekly digest'']"


section \<open>Notions for the grouping and the window invariant\<close>

text \<open>
  These follow the words of the specification and of the proofs, not the code.  The
  same-domain set of \<open>d\<close> in a slice, in slice order; whether it is large enough to
  collapse; whether an entry is emitted (every member of a small set, the first member of
  a large one); the item emitted for an entry; and the ids the loop has marked after it
  has visited the prefix \<open>pre\<close> of a slice with pairwise distinct ids.
\<close>

definition domainMembers :: "string \<Rightarrow> NormalizedEmail list \<Rightarrow> NormalizedEmail list" where
  "domainMembers d emails = filter (\<lambda>x. senderDomain x = d) emails"

definition collapses :: "NormalizedEmail list \<Rightarrow> string \<Rightarrow> bool" where
  "collapses emails d = (5 \<le> length (domainMembers d emails))"

definition emitted :: "NormalizedEmail list \<Rightarrow> NormalizedEmail \<Rightarrow> bool" where
  "emitted emails x =
     (\<not> collapses emails (senderDomain x) \<or> x = hd (domainMembers (senderDomain x) emails))"

definition itemFor :: "NormalizedEmail list \<Rightarrow> NormalizedEmail \<Rightarrow> BufferItem" where
  "itemFor emails x =
     (if collapses emails (senderDomain x)
      then \<lparr>email = x, isBossField = Some True,
            groupCount = Some (length (domainMembers (senderDomain x) emails))\<rparr>
      else \<lparr>email = x, isBossField = None, groupCount = None\<rparr>)"

definition processedAfter :: "NormalizedEmail list \<Rightarrow> NormalizedEmail list \<Rightarrow> string set" where
  "processedAfter emails pre =
     email_id ` {x \<in> set emails. x \<in> set pre
                   \<or> (collapses emails (senderDomain x)
                       \<and> senderDomain x \<in> senderDomain ` set pre)}"

text \<open>The window is the grouping of the first \<open>windowSize\<close> queue entries.\<close>

definition synced :: "SwipeBuffer \<Rightarrow> bool" where
  "synced b =
     (activeWindow b = groupIntoBosses (take (windowSize (config b)) (fullQueue b)))"

section \<open>Properties of the buffer\<close>

lemma syncWindow_fields [simp]:
  "fullQueue (syncWindow b) = fullQueue b"
  "config (syncWindow b) = config b"
  "isFetching (syncWindow b) = isFetching b"
  "activeWindow (syncWindow b) = groupIntoBosses (take (windowSize (config b)) (fullQueue b))"
  by (simp_all add: syncWindow_def Let_def)

subsection \<open>Grouping\<close>

lemma id_in_processedAfter:
  assumes "distinct (map email_id emails)" and "x \<in> set emails"
  shows "email_id x \<in> processedAfter emails pre \<longleftrightarrow>
           x \<in> set pre \<or> (collapses emails (senderDomain x)
                            \<and> senderDomain x \<in> senderDomain ` set pre)"
proof -
  from assms(1) have inj: "inj_on email_id (set emails)" by (simp add: distinct_map)
  show ?thesis
  proof
    assume "email_id x \<in> processedAfter emails pre"
    then obtain y where y: "y \<in> set emails" "email_id y = email_id x"
      "y \<in> set pre \<or> (collapses emails (senderDomain y)
                         \<and> senderDomain y \<in> senderDomain ` set pre)"
      unfolding processedAfter_def by auto
    from inj y(1,2) assms(2) have "y = x" by (auto dest: inj_onD)
    with y(3) show "x \<in> set pre \<or> (collapses emails (senderDomain x)
                            \<and> senderDomain x \<in> senderDomain ` set pre)" by simp
  next
    assume "x \<in> set pre \<or> (collapses emails (senderDomain x)
                            \<and> senderDomain x \<in> senderDomain ` set pre)"
    with assms(2) show "email_id x \<in> processedAfter emails pre"
      unfolding processedAfter_def by blast
  qed
qed

lemma length_filter_conj_le:
  "length (filter (\<lambda>x. A x \<and> B x) xs) \<le> length (filter A xs)"
  by (induction xs) auto

lemma processedAfter_snoc:
  assumes "e \<in> set emails"
  shows "processedAfter emails (pre @ [e]) =
           processedAfter emails pre
           \<union> (if collapses emails (senderDomain e)
              then email_id ` set (domainMembers (senderDomain e) emails)
              else {email_id e})"
proof -
  let ?old = "{x \<in> set emails. x \<in> set pre
                 \<or> (collapses emails (senderDomain x)
                     \<and> senderDomain x \<in> senderDomain ` set pre)}"
  let ?new = "{x \<in> set emails. x = e
                 \<or> (collapses emails (senderDomain x) \<and> senderDomain x = senderDomain e)}"
  have "{x \<in> set emails. x \<in> set (pre @ [e])
           \<or> (collapses emails (senderDomain x)
               \<and> senderDomain x \<in> senderDomain ` set (pre @ [e]))} = ?old \<union> ?new"
    by (simp add: set_eq_iff) blast
  then have step: "processedAfter emails (pre @ [e]) = email_id ` ?old \<union> email_id ` ?new"
    unfolding processedAfter_def by (simp only: image_Un)
  have "?new = (if collapses emails (senderDomain e)
                then set (domainMembers (senderDomain e) emails) else {e})"
  proof (cases "collapses emails (senderDomain e)")
    case True
    with assms show ?thesis by (auto simp: domainMembers_def)
  next
    case False
    with assms show ?thesis by auto
  qed
  then have "email_id ` ?new = (if collapses emails (senderDomain e)
                then email_id ` set (domainMembers (senderDomain e) emails)
                else {email_id e})"
    by simp
  with step show ?thesis by (simp only: processedAfter_def)
qed

lemma hd_domainMembers_started:
  assumes "senderDomain e \<in> senderDomain ` set pre"
  shows "hd (domainMembers (senderDomain e) (pre @ e # rest)) \<in> set pre"
proof -
  from assms have "filter (\<lambda>x. senderDomain x = senderDomain e) pre \<noteq> []"
    by (auto simp: filter_empty_conv)
  then have "hd (domainMembers (senderDomain e) (pre @ e # rest))
               = hd (filter (\<lambda>x. senderDomain x = senderDomain e) pre)"
    by (simp add: domainMembers_def)
  moreover have "hd (filter (\<lambda>x. senderDomain x = senderDomain e) pre)
                   \<in> set (filter (\<lambda>x. senderDomain x = senderDomain e) pre)"
    using \<open>filter (\<lambda>x. senderDomain x = senderDomain e) pre \<noteq> []\<close> by (rule hd_in_set)
  ultimately show ?thesis by simp
qed

lemma hd_domainMembers_fresh:
  assumes "senderDomain e \<notin> senderDomain ` set pre"
  shows "hd (domainMembers (senderDomain e) (pre @ e # rest)) = e"
proof -
  have "filter (\<lambda>x. senderDomain x = senderDomain e) pre = []"
    unfolding filter_empty_conv using assms by (metis imageI)
  then show ?thesis by (simp add: domainMembers_def)
qed

text \<open>
  The loop, started after a prefix with the ids that prefix marks, emits the items of the
  emitted entries of the rest, in order.
\<close>

lemma groupLoop_characterised:
  assumes "distinct (map email_id emails)" and "emails = pre @ rest"
  shows "groupLoop emails rest (processedAfter emails pre)
           = map (itemFor emails) (filter (emitted emails) rest)"
  using assms(2)
proof (induction rest arbitrary: pre)
  case Nil
  show ?case by simp
next
  case (Cons e rest)
  let ?P = "processedAfter emails pre"
  let ?d = "senderDomain e"
  let ?same = "filter (\<lambda>x. senderDomain x = ?d \<and> email_id x \<notin> ?P) emails"
  from Cons.prems have split: "emails = (pre @ [e]) @ rest" by simp
  from Cons.prems have e_in: "e \<in> set emails" by simp
  from assms(1) have "distinct emails" by (simp add: distinct_map)
  with Cons.prems have e_new: "e \<notin> set pre" by auto
  note IH = Cons.IH [OF split]
  have done_iff: "email_id e \<in> ?P \<longleftrightarrow>
      collapses emails ?d \<and> ?d \<in> senderDomain ` set pre"
    using id_in_processedAfter [OF assms(1) e_in, of pre] e_new by simp
  show ?case
  proof (cases "email_id e \<in> ?P")
    case True
    with done_iff have big: "collapses emails ?d" and started: "?d \<in> senderDomain ` set pre"
      by simp_all
    from hd_domainMembers_started [OF started, of rest] Cons.prems e_new
    have "e \<noteq> hd (domainMembers ?d emails)" by auto
    with big have skip: "\<not> emitted emails e" by (simp add: emitted_def)
    have "email_id ` set (domainMembers ?d emails) \<subseteq> ?P"
    proof
      fix i assume "i \<in> email_id ` set (domainMembers ?d emails)"
      then obtain x where x: "x \<in> set emails" "senderDomain x = ?d" "i = email_id x"
        by (auto simp: domainMembers_def)
      with big started id_in_processedAfter [OF assms(1) x(1), of pre]
      show "i \<in> ?P" by simp
    qed
    with processedAfter_snoc [OF e_in, of pre] big
    have "processedAfter emails (pre @ [e]) = ?P" by (simp add: Un_absorb2)
    with IH True skip show ?thesis by simp
  next
    case False
    show ?thesis
    proof (cases "collapses emails ?d")
      case True
      with False done_iff have fresh: "?d \<notin> senderDomain ` set pre" by simp
      have "?same = domainMembers ?d emails"
        unfolding domainMembers_def
      proof (rule filter_cong [OF refl])
        fix x assume x: "x \<in> set emails"
        show "(senderDomain x = ?d \<and> email_id x \<notin> ?P) = (senderDomain x = ?d)"
        proof (cases "senderDomain x = ?d")
          case same: True
          with fresh have "x \<notin> set pre" by (metis imageI)
          with same fresh id_in_processedAfter [OF assms(1) x, of pre]
          show ?thesis by simp
        next
          case False
          then show ?thesis by simp
        qed
      qed
      moreover from hd_domainMembers_fresh [OF fresh, of rest] Cons.prems
      have first: "hd (domainMembers ?d emails) = e" by simp
      moreover from True have "domainMembers ?d emails \<noteq> []"
        by (auto simp: collapses_def)
      then have "domainMembers ?d emails ! 0 = hd (domainMembers ?d emails)"
        by (simp add: hd_conv_nth)
      moreover have "processedAfter emails (pre @ [e])
                       = ?P \<union> set (map email_id (domainMembers ?d emails))"
        using processedAfter_snoc [OF e_in, of pre] True by simp
      moreover from True have "5 \<le> length (domainMembers ?d emails)"
        by (simp add: collapses_def)
      moreover from True first have "emitted emails e" "itemFor emails e =
          \<lparr>email = e, isBossField = Some True,
           groupCount = Some (length (domainMembers ?d emails))\<rparr>"
        by (simp_all add: emitted_def itemFor_def)
      ultimately show ?thesis
        using IH False by (simp add: Let_def)
    next
      case small: False
      have "length ?same \<le> length (domainMembers ?d emails)"
        unfolding domainMembers_def by (rule length_filter_conj_le)
      with small have few: "\<not> 5 \<le> length ?same" by (simp add: collapses_def)
      have "processedAfter emails (pre @ [e]) = insert (email_id e) ?P"
        using processedAfter_snoc [OF e_in, of pre] small by simp
      moreover from small have "emitted emails e" "itemFor emails e =
          \<lparr>email = e, isBossField = None, groupCount = None\<rparr>"
        by (simp_all add: emitted_def itemFor_def)
      ultimately show ?thesis
        using IH False few by (simp add: Let_def)
    qed
  qed
qed

lemma groupIntoBosses_characterised:
  assumes "distinct (map email_id emails)"
  shows "groupIntoBosses emails = map (itemFor emails) (filter (emitted emails) emails)"
  using groupLoop_characterised [OF assms, of "[]" emails]
  by (simp add: groupIntoBosses_def processedAfter_def)

lemma email_itemFor [simp]: "email (itemFor emails x) = x"
  by (simp add: itemFor_def)

lemma filter_eq_single:
  assumes "distinct xs" and "h \<in> set xs"
  shows "filter (\<lambda>x. x = h) xs = [h]"
  using assms by (induction xs) (auto simp: filter_empty_conv)

lemma items_of_domain:
  "filter (\<lambda>item. senderDomain (email item) = d)
     (map (itemFor emails) (filter (emitted emails) emails))
   = map (itemFor emails) (filter (emitted emails) (domainMembers d emails))"
proof -
  have "filter (\<lambda>x. emitted emails x \<and> senderDomain x = d) emails
          = filter (\<lambda>x. senderDomain x = d \<and> emitted emails x) emails"
    by (rule filter_cong) auto
  then show ?thesis
    by (simp add: filter_map o_def domainMembers_def)
qed

lemma collapsed_domain_emits_first:
  assumes "distinct emails" and "collapses emails d"
  shows "filter (emitted emails) (domainMembers d emails) = [hd (domainMembers d emails)]"
proof -
  let ?m = "domainMembers d emails"
  from assms(2) have ne: "?m \<noteq> []" by (auto simp: collapses_def)
  then have h: "hd ?m \<in> set ?m" by (rule hd_in_set)
  from assms(1) have dm: "distinct ?m" by (simp add: domainMembers_def)
  have "filter (emitted emails) ?m = filter (\<lambda>x. x = hd ?m) ?m"
  proof (rule filter_cong [OF refl])
    fix x assume "x \<in> set ?m"
    then have "senderDomain x = d" by (simp add: domainMembers_def)
    with assms(2) show "emitted emails x = (x = hd ?m)" by (simp add: emitted_def)
  qed
  with filter_eq_single [OF dm h] show ?thesis by simp
qed

lemma small_domain_emits_all:
  assumes "\<not> collapses emails d"
  shows "filter (emitted emails) (domainMembers d emails) = domainMembers d emails"
    and "map (itemFor emails) (domainMembers d emails)
          = map (\<lambda>x. \<lparr>email = x, isBossField = None, groupCount = None\<rparr>)
              (domainMembers d emails)"
proof -
  have d: "\<And>x. x \<in> set (domainMembers d emails) \<Longrightarrow> senderDomain x = d"
    by (simp add: domainMembers_def)
  show "filter (emitted emails) (domainMembers d emails) = domainMembers d emails"
    using assms d by (simp add: filter_id_conv emitted_def)
  show "map (itemFor emails) (domainMembers d emails)
          = map (\<lambda>x. \<lparr>email = x, isBossField = None, groupCount = None\<rparr>)
              (domainMembers d emails)"
    using assms d by (intro map_cong refl) (simp add: itemFor_def)
qed

text \<open>
  Claim C6, for a slice whose ids are pairwise distinct.  A same-domain set of at least
  five entries appears in the grouping as exactly one item: collapsed, its representative
  the first member of the set in the slice, its count the size of the set.  A same-domain
  set of fewer than five appears as the singletons of its members, in slice order.  The
  grouping lists its representatives in the order of the slice: they are the members of
  small sets and the first members of large ones.
\<close>

theorem groupIntoBosses_groups_by_domain:
  assumes "distinct (map email_id emails)"
  shows "(\<forall>d. 5 \<le> length (domainMembers d emails) \<longrightarrow>
            filter (\<lambda>item. senderDomain (email item) = d) (groupIntoBosses emails)
              = [\<lparr>email = hd (domainMembers d emails), isBossField = Some True,
                  groupCount = Some (length (domainMembers d emails))\<rparr>])
       \<and> (\<forall>d. length (domainMembers d emails) < 5 \<longrightarrow>
            filter (\<lambda>item. senderDomain (email item) = d) (groupIntoBosses emails)
              = map (\<lambda>x. \<lparr>email = x, isBossField = None, groupCount = None\<rparr>)
                  (domainMembers d emails))
       \<and> map email (groupIntoBosses emails)
            = filter (\<lambda>x. length (domainMembers (senderDomain x) emails) < 5
                          \<or> x = hd (domainMembers (senderDomain x) emails)) emails"
proof -
  note char = groupIntoBosses_characterised [OF assms]
  from assms have de: "distinct emails" by (simp add: distinct_map)
  have big: "filter (\<lambda>item. senderDomain (email item) = d) (groupIntoBosses emails)
              = [\<lparr>email = hd (domainMembers d emails), isBossField = Some True,
                  groupCount = Some (length (domainMembers d emails))\<rparr>]"
    if "5 \<le> length (domainMembers d emails)" for d
  proof -
    from that have c: "collapses emails d" by (simp add: collapses_def)
    then have "domainMembers d emails \<noteq> []" by (auto simp: collapses_def)
    then have "hd (domainMembers d emails) \<in> set (domainMembers d emails)"
      by (rule hd_in_set)
    then have "senderDomain (hd (domainMembers d emails)) = d"
      by (simp add: domainMembers_def)
    with c have "itemFor emails (hd (domainMembers d emails))
        = \<lparr>email = hd (domainMembers d emails), isBossField = Some True,
           groupCount = Some (length (domainMembers d emails))\<rparr>"
      by (simp add: itemFor_def)
    with collapsed_domain_emits_first [OF de c] show ?thesis
      by (simp add: char items_of_domain)
  qed
  have small: "filter (\<lambda>item. senderDomain (email item) = d) (groupIntoBosses emails)
              = map (\<lambda>x. \<lparr>email = x, isBossField = None, groupCount = None\<rparr>)
                  (domainMembers d emails)"
    if "length (domainMembers d emails) < 5" for d
  proof -
    from that have c: "\<not> collapses emails d" by (simp add: collapses_def)
    from small_domain_emits_all [OF c] show ?thesis
      by (simp add: char items_of_domain)
  qed
  have "map email (groupIntoBosses emails) = filter (emitted emails) emails"
    by (simp add: char o_def)
  also have "\<dots> = filter (\<lambda>x. length (domainMembers (senderDomain x) emails) < 5
                          \<or> x = hd (domainMembers (senderDomain x) emails)) emails"
    by (rule filter_cong) (auto simp: emitted_def collapses_def)
  finally show ?thesis using big small by blast
qed

text \<open>
  C6 at five emails of \<open>spam.com\<close> interleaved with four of \<open>dev.to\<close>: one collapsed
  item of count 5 for the first, four singletons for the second, the collapsed item first
  because its first member comes first.
\<close>

theorem groupIntoBosses_groups_by_domain_witness:
  "distinct (map email_id fiveAndFour)
   \<and> length (domainMembers ''spam.com'' fiveAndFour) = 5
   \<and> length (domainMembers ''dev.to'' fiveAndFour) = 4
   \<and> filter (\<lambda>item. senderDomain (email item) = ''spam.com'') (groupIntoBosses fiveAndFour)
       = [\<lparr>email = mockEmail ''1'' ''Spam Lord'' ''spam.com'' ''Your weekly digest'',
           isBossField = Some True, groupCount = Some 5\<rparr>]
   \<and> filter (\<lambda>item. senderDomain (email item) = ''dev.to'') (groupIntoBosses fiveAndFour)
       = [\<lparr>email = mockEmail ''2'' ''Dev Ops Weekly'' ''dev.to'' ''Did you miss this?'',
           isBossField = None, groupCount = None\<rparr>,
          \<lparr>email = mockEmail ''4'' ''Dev Ops Weekly'' ''dev.to'' ''Did you miss this?'',
           isBossField = None, groupCount = None\<rparr>,
          \<lparr>email = mockEmail ''6'' ''Dev Ops Weekly'' ''dev.to'' ''Did you miss this?'',
           isBossField = None, groupCount = None\<rparr>,
          \<lparr>email = mockEmail ''8'' ''Dev Ops Weekly'' ''dev.to'' ''Did you miss this?'',
           isBossField = None, groupCount = None\<rparr>]
   \<and> map email (groupIntoBosses fiveAndFour)
       = [mockEmail ''1'' ''Spam Lord'' ''spam.com'' ''Your weekly digest'',
          mockEmail ''2'' ''Dev Ops Weekly'' ''dev.to'' ''Did you miss this?'',
          mockEmail ''4'' ''Dev Ops Weekly'' ''dev.to'' ''Did you miss this?'',
          mockEmail ''6'' ''Dev Ops Weekly'' ''dev.to'' ''Did you miss this?'',
          mockEmail ''8'' ''Dev Ops Weekly'' ''dev.to'' ''Did you miss this?'']"
proof -
  have ids: "distinct (map email_id fiveAndFour)" by code_simp
  have a: "domainMembers ''spam.com'' fiveAndFour =
      [mockEmail ''1'' ''Spam Lord'' ''spam.com'' ''Your weekly digest'',
       mockEmail ''3'' ''Spam Lord'' ''spam.com'' ''Your weekly digest'',
       mockEmail ''5'' ''Spam Lord'' ''spam.com'' ''Your weekly digest'',
       mockEmail ''7'' ''Spam Lord'' ''spam.com'' ''Your weekly digest'',
       mockEmail ''9'' ''Spam Lord'' ''spam.com'' ''Your weekly digest'']"
    by code_simp
  have b: "domainMembers ''dev.to'' fiveAndFour =
      [mockEmail ''2'' ''Dev Ops Weekly'' ''dev.to'' ''Did you miss this?'',
       mockEmail ''4'' ''Dev Ops Weekly'' ''dev.to'' ''Did you miss this?'',
       mockEmail ''6'' ''Dev Ops Weekly'' ''dev.to'' ''Did you miss this?'',
       mockEmail ''8'' ''Dev Ops Weekly'' ''dev.to'' ''Did you miss this?'']"
    by code_simp
  have order: "filter (\<lambda>x. length (domainMembers (senderDomain x) fiveAndFour) < 5
                    \<or> x = hd (domainMembers (senderDomain x) fiveAndFour)) fiveAndFour
      = [mockEmail ''1'' ''Spam Lord'' ''spam.com'' ''Your weekly digest'',
          mockEmail ''2'' ''Dev Ops Weekly'' ''dev.to'' ''Did you miss this?'',
          mockEmail ''4'' ''Dev Ops Weekly'' ''dev.to'' ''Did you miss this?'',
          mockEmail ''6'' ''Dev Ops Weekly'' ''dev.to'' ''Did you miss this?'',
          mockEmail ''8'' ''Dev Ops Weekly'' ''dev.to'' ''Did you miss this?'']"
    by code_simp
  note g = groupIntoBosses_groups_by_domain [OF ids]
  from g have "5 \<le> length (domainMembers ''spam.com'' fiveAndFour) \<longrightarrow>
      filter (\<lambda>item. senderDomain (email item) = ''spam.com'') (groupIntoBosses fiveAndFour)
        = [\<lparr>email = hd (domainMembers ''spam.com'' fiveAndFour), isBossField = Some True,
            groupCount = Some (length (domainMembers ''spam.com'' fiveAndFour))\<rparr>]"
    by blast
  then have big: "filter (\<lambda>item. senderDomain (email item) = ''spam.com'')
        (groupIntoBosses fiveAndFour)
        = [\<lparr>email = mockEmail ''1'' ''Spam Lord'' ''spam.com'' ''Your weekly digest'',
            isBossField = Some True, groupCount = Some 5\<rparr>]"
    by (simp add: a)
  from g have "length (domainMembers ''dev.to'' fiveAndFour) < 5 \<longrightarrow>
      filter (\<lambda>item. senderDomain (email item) = ''dev.to'') (groupIntoBosses fiveAndFour)
        = map (\<lambda>x. \<lparr>email = x, isBossField = None, groupCount = None\<rparr>)
            (domainMembers ''dev.to'' fiveAndFour)"
    by blast
  then have small: "filter (\<lambda>item. senderDomain (email item) = ''dev.to'')
        (groupIntoBosses fiveAndFour)
        = map (\<lambda>x. \<lparr>email = x, isBossField = None, groupCount = None\<rparr>)
            (domainMembers ''dev.to'' fiveAndFour)"
    by (simp add: b)
  from g order have emitted_order: "map email (groupIntoBosses fiveAndFour)
      = [mockEmail ''1'' ''Spam Lord'' ''spam.com'' ''Your weekly digest'',
          mockEmail ''2'' ''Dev Ops Weekly'' ''dev.to'' ''Did you miss this?'',
          mockEmail ''4'' ''Dev Ops Weekly'' ''dev.to'' ''Did you miss this?'',
          mockEmail ''6'' ''Dev Ops Weekly'' ''dev.to'' ''Did you miss this?'',
          mockEmail ''8'' ''Dev Ops Weekly'' ''dev.to'' ''Did you miss this?'']"
    by simp
  from ids big small emitted_order show ?thesis by (simp add: a b)
qed

text \<open>
  C6 as stated, without the condition on the ids, fails.  The loop skips an entry whose id
  is marked and leaves it out of the counts: here an email of another domain carries the
  id of the first of five emails of \<open>spam.com\<close>, that one is skipped, and the other four
  are emitted as singletons, with no collapsed item for a same-domain set of five.
\<close>

theorem groupIntoBosses_duplicate_id_counterexample:
  "length (domainMembers ''spam.com''
     [mockEmail ''1'' ''Dev Ops Weekly'' ''dev.to'' ''Did you miss this?'',
      mockEmail ''1'' ''Spam Lord'' ''spam.com'' ''Your weekly digest'',
      mockEmail ''2'' ''Spam Lord'' ''spam.com'' ''Your weekly digest'',
      mockEmail ''3'' ''Spam Lord'' ''spam.com'' ''Your weekly digest'',
      mockEmail ''4'' ''Spam Lord'' ''spam.com'' ''Your weekly digest'',
      mockEmail ''5'' ''Spam Lord'' ''spam.com'' ''Your weekly digest'']) = 5
   \<and> groupIntoBosses
     [mockEmail ''1'' ''Dev Ops Weekly'' ''dev.to'' ''Did you miss this?'',
      mockEmail ''1'' ''Spam Lord'' ''spam.com'' ''Your weekly digest'',
      mockEmail ''2'' ''Spam Lord'' ''spam.com'' ''Your weekly digest'',
      mockEmail ''3'' ''Spam Lord'' ''spam.com'' ''Your weekly digest'',
      mockEmail ''4'' ''Spam Lord'' ''spam.com'' ''Your weekly digest'',
      mockEmail ''5'' ''Spam Lord'' ''spam.com'' ''Your weekly digest'']
     = [\<lparr>email = mockEmail ''1'' ''Dev Ops Weekly'' ''dev.to'' ''Did you miss this?'',
         isBossField = None, groupCount = None\<rparr>,
        \<lparr>email = mockEmail ''2'' ''Spam Lord'' ''spam.com'' ''Your weekly digest'',
         isBossField = None, groupCount = None\<rparr>,
        \<lparr>email = mockEmail ''3'' ''Spam Lord'' ''spam.com'' ''Your weekly digest'',
         isBossField = None, groupCount = None\<rparr>,
        \<lparr>email = mockEmail ''4'' ''Spam Lord'' ''spam.com'' ''Your weekly digest'',
         isBossField = None, groupCount = None\<rparr>,
        \<lparr>email = mockEmail ''5'' ''Spam Lord'' ''spam.com'' ''Your weekly digest'',
         isBossField = None, groupCount = None\<rparr>]"
  by code_simp

subsection \<open>The window invariant\<close>




lemma standsFor_simps [simp]:
  "standsFor \<lparr>email = x, isBossField = y, groupCount = Some n\<rparr> = n"
  "standsFor \<lparr>email = x, isBossField = y, groupCount = None\<rparr> = 1"
  by (simp_all add: standsFor_def)



lemma synced_syncWindow: "synced (syncWindow b)"
  by (simp add: synced_def)






subsection \<open>A refill that rejects\<close>

lemma refill_rejected:
  "refill (Inl err) b = (Inl err, syncWindow (b\<lparr>isFetching := False\<rparr>))"
  by (simp add: refill_def Let_def)

lemma refillIfLow_rejected:
  assumes "length (activeWindow b) \<le> triggerThreshold (config b)" and "\<not> isFetching b"
  shows "refillIfLow (Inl err) b = (Inl err, syncWindow (b\<lparr>isFetching := False\<rparr>))"
  using assms by (simp add: refillIfLow_def refill_rejected)

text \<open>
  Claim C1, as the code has it.  Let no refill be in flight, and let the window be at or
  below the trigger threshold once the consumed ids are filtered out of it, so that the
  call triggers a refill.  If the callback rejects with \<open>err\<close>, then \<open>consumeItem\<close> (and
  likewise \<open>consumeBatch\<close>) clears the fetching flag, leaves in the queue exactly the
  entries that were not consumed, with nothing appended, and resynchronises the window;
  but the call itself rejects with \<open>err\<close>: the failure reaches the caller.
\<close>

theorem refill_rejection_propagates:
  assumes "\<not> isFetching b"
  shows "(length (filter (\<lambda>item. email_id (email item) \<noteq> i) (activeWindow b))
            \<le> triggerThreshold (config b)
          \<longrightarrow> fst (consumeItem i (Inl err) b) = Inl err
            \<and> isFetching (snd (consumeItem i (Inl err) b)) = False
            \<and> fullQueue (snd (consumeItem i (Inl err) b))
                = filter (\<lambda>e. email_id e \<noteq> i) (fullQueue b)
            \<and> activeWindow (snd (consumeItem i (Inl err) b))
                = groupIntoBosses (take (windowSize (config b))
                    (filter (\<lambda>e. email_id e \<noteq> i) (fullQueue b))))
       \<and> (length (filter (\<lambda>item. email_id (email item) \<notin> set ids) (activeWindow b))
            \<le> triggerThreshold (config b)
          \<longrightarrow> fst (consumeBatch ids (Inl err) b) = Inl err
            \<and> isFetching (snd (consumeBatch ids (Inl err) b)) = False
            \<and> fullQueue (snd (consumeBatch ids (Inl err) b))
                = filter (\<lambda>e. email_id e \<notin> set ids) (fullQueue b)
            \<and> activeWindow (snd (consumeBatch ids (Inl err) b))
                = groupIntoBosses (take (windowSize (config b))
                    (filter (\<lambda>e. email_id e \<notin> set ids) (fullQueue b))))"
  using assms by (simp add: consumeItem_def consumeBatch_def Let_def refillIfLow_rejected)

text \<open>
  C1 at a buffer of two emails with the default configuration: consuming one of them
  triggers the refill.
\<close>

theorem refill_rejection_propagates_witness:
  "\<not> isFetching (construct [mockEmail ''1'' ''Spam Lord'' ''spam.com'' ''Did you miss this?'',
                     mockEmail ''2'' ''Dev Ops Weekly'' ''dev.to'' ''Did you miss this?'']
            DEFAULT_CONFIG)
   \<and> length (filter (\<lambda>item. email_id (email item) \<noteq> ''1'') (activeWindow
        (construct [mockEmail ''1'' ''Spam Lord'' ''spam.com'' ''Did you miss this?'',
                     mockEmail ''2'' ''Dev Ops Weekly'' ''dev.to'' ''Did you miss this?'']
            DEFAULT_CONFIG)))
       \<le> triggerThreshold (config (construct [mockEmail ''1'' ''Spam Lord'' ''spam.com'' ''Did you miss this?'',
                     mockEmail ''2'' ''Dev Ops Weekly'' ''dev.to'' ''Did you miss this?'']
            DEFAULT_CONFIG))
   \<and> isFetching (snd (consumeItem ''1'' (Inl (Error ''network down''))
         (construct [mockEmail ''1'' ''Spam Lord'' ''spam.com'' ''Did you miss this?'',
                     mockEmail ''2'' ''Dev Ops Weekly'' ''dev.to'' ''Did you miss this?'']
            DEFAULT_CONFIG))) = False
   \<and> fullQueue (snd (consumeItem ''1'' (Inl (Error ''network down''))
         (construct [mockEmail ''1'' ''Spam Lord'' ''spam.com'' ''Did you miss this?'',
                     mockEmail ''2'' ''Dev Ops Weekly'' ''dev.to'' ''Did you miss this?'']
            DEFAULT_CONFIG)))
       = [mockEmail ''2'' ''Dev Ops Weekly'' ''dev.to'' ''Did you miss this?'']"
proof -
  let ?e1 = "mockEmail ''1'' ''Spam Lord'' ''spam.com'' ''Did you miss this?''"
  let ?e2 = "mockEmail ''2'' ''Dev Ops Weekly'' ''dev.to'' ''Did you miss this?''"
  let ?b = "construct [?e1, ?e2] DEFAULT_CONFIG"
  have idle: "\<not> isFetching ?b" by (simp add: construct_def)
  have low: "length (filter (\<lambda>item. email_id (email item) \<noteq> ''1'') (activeWindow ?b))
               \<le> triggerThreshold (config ?b)"
    by code_simp
  have q: "filter (\<lambda>e. email_id e \<noteq> ''1'') (fullQueue ?b) = [?e2]"
    by (simp add: construct_def mockEmail_def)
  from refill_rejection_propagates [OF idle, of "''1''" "Error ''network down''" "[]"] low
  have "isFetching (snd (consumeItem ''1'' (Inl (Error ''network down'')) ?b)) = False
        \<and> fullQueue (snd (consumeItem ''1'' (Inl (Error ''network down'')) ?b))
            = filter (\<lambda>e. email_id e \<noteq> ''1'') (fullQueue ?b)"
    by blast
  with idle low q show ?thesis by simp
qed

text \<open>
  C1 as stated, that the caller observes no error, fails: on a buffer of two emails the
  consuming call whose refill rejects is itself rejected, with the callback's error.
\<close>

theorem refill_rejection_counterexample:
  "fst (consumeItem ''1'' (Inl (Error ''network down''))
         (construct [mockEmail ''1'' ''Spam Lord'' ''spam.com'' ''Did you miss this?'',
                     mockEmail ''2'' ''Dev Ops Weekly'' ''dev.to'' ''Did you miss this?'']
            DEFAULT_CONFIG))
     = Inl (Error ''network down'')
   \<and> fst (consumeBatch [''1''] (Inl (Error ''network down''))
         (construct [mockEmail ''1'' ''Spam Lord'' ''spam.com'' ''Did you miss this?'',
                     mockEmail ''2'' ''Dev Ops Weekly'' ''dev.to'' ''Did you miss this?'']
            DEFAULT_CONFIG))
     = Inl (Error ''network down'')"
  by code_simp

subsection \<open>Removing a domain\<close>

text \<open>
  Claim C10.  \<open>nukeDomain\<close> keeps, in their order, exactly the queued emails whose
  \<open>senderDomain\<close> is not the very string given: the queue after the call is the old one
  filtered, its members are the old members of another domain, it is a subsequence of the
  old queue, and an email whose domain differs from the argument in letter case only is
  still there.  The call takes no capability and no callback outcome: it touches the
  queue and the window and nothing else.
\<close>

theorem nukeDomain_removes_exactly:
  "fullQueue (nukeDomain d b) = filter (\<lambda>e. senderDomain e \<noteq> d) (fullQueue b)
   \<and> set (fullQueue (nukeDomain d b)) = {e \<in> set (fullQueue b). senderDomain e \<noteq> d}
   \<and> subseq (fullQueue (nukeDomain d b)) (fullQueue b)
   \<and> (\<forall>e \<in> set (fullQueue b). toLowerCase (senderDomain e) = toLowerCase d
          \<and> senderDomain e \<noteq> d \<longrightarrow> e \<in> set (fullQueue (nukeDomain d b)))
   \<and> isFetching (nukeDomain d b) = isFetching b
   \<and> config (nukeDomain d b) = config b"
  by (auto simp: nukeDomain_def)

text \<open>
  C10 at a queue of three: the email from \<open>Spam.com\<close> survives \<open>nukeDomain("spam.com")\<close>,
  the one from \<open>spam.com\<close> does not.
\<close>

theorem nukeDomain_removes_exactly_witness:
  "mockEmail ''1'' ''Spam Lord'' ''Spam.com'' ''Did you miss this?''
     \<in> set (fullQueue (construct
           [mockEmail ''1'' ''Spam Lord'' ''Spam.com'' ''Did you miss this?'',
            mockEmail ''2'' ''Spam Lord'' ''spam.com'' ''Did you miss this?'',
            mockEmail ''3'' ''Dev Ops Weekly'' ''dev.to'' ''Did you miss this?'']
           DEFAULT_CONFIG))
   \<and> toLowerCase (senderDomain (mockEmail ''1'' ''Spam Lord'' ''Spam.com''
         ''Did you miss this?'')) = toLowerCase ''spam.com''
   \<and> senderDomain (mockEmail ''1'' ''Spam Lord'' ''Spam.com'' ''Did you miss this?'')
         \<noteq> ''spam.com''
   \<and> fullQueue (nukeDomain ''spam.com'' (construct
           [mockEmail ''1'' ''Spam Lord'' ''Spam.com'' ''Did you miss this?'',
            mockEmail ''2'' ''Spam Lord'' ''spam.com'' ''Did you miss this?'',
            mockEmail ''3'' ''Dev Ops Weekly'' ''dev.to'' ''Did you miss this?'']
           DEFAULT_CONFIG))
       = [mockEmail ''1'' ''Spam Lord'' ''Spam.com'' ''Did you miss this?'',
          mockEmail ''3'' ''Dev Ops Weekly'' ''dev.to'' ''Did you miss this?'']"
proof -
  let ?e1 = "mockEmail ''1'' ''Spam Lord'' ''Spam.com'' ''Did you miss this?''"
  let ?e2 = "mockEmail ''2'' ''Spam Lord'' ''spam.com'' ''Did you miss this?''"
  let ?e3 = "mockEmail ''3'' ''Dev Ops Weekly'' ''dev.to'' ''Did you miss this?''"
  let ?b = "construct [?e1, ?e2, ?e3] DEFAULT_CONFIG"
  have q: "fullQueue ?b = [?e1, ?e2, ?e3]"
    by (simp add: construct_def)
  have d: "senderDomain ?e1 = ''Spam.com''" "senderDomain ?e2 = ''spam.com''"
    "senderDomain ?e3 = ''dev.to''"
    by (simp_all add: mockEmail_def)
  have low: "toLowerCase (senderDomain ?e1) = toLowerCase ''spam.com''"
    unfolding d by code_simp
  from nukeDomain_removes_exactly [of "''spam.com''" ?b]
  have "fullQueue (nukeDomain ''spam.com'' ?b)
          = filter (\<lambda>e. senderDomain e \<noteq> ''spam.com'') (fullQueue ?b)"
    by blast
  then have "fullQueue (nukeDomain ''spam.com'' ?b) = [?e1, ?e3]"
    by (simp add: q d)
  with q d low show ?thesis by simp
qed

section \<open>Properties of the classification scorer\<close>

lemma splitOn_nonempty: "splitOn c s \<noteq> []"
  by (induction s) (auto split: list.splits)

lemma splitOn_first_prefix: "prefix (splitOn c s ! 0) s"
proof (induction s)
  case Nil
  show ?case by simp
next
  case (Cons x xs)
  then show ?case using splitOn_nonempty [of c xs]
    by (cases "splitOn c xs") auto
qed

text \<open>A pattern found in the local part of an address is found in the address.\<close>

lemma includes_local_part:
  assumes "includes_str (toLowerCase (splitOn CHR ''@'' s ! 0)) p"
  shows "includes_str (toLowerCase s) p"
proof -
  from splitOn_first_prefix [of "CHR ''@''" s]
  obtain r where "s = splitOn CHR ''@'' s ! 0 @ r" by (auto simp: prefix_def)
  then have "map lower_char s = map lower_char (splitOn CHR ''@'' s ! 0 @ r)"
    by simp
  then have "toLowerCase s = toLowerCase (splitOn CHR ''@'' s ! 0) @ toLowerCase r"
    by (simp add: toLowerCase_def)
  with assms show ?thesis
    by (simp add: includes_str_def sublist_append)
qed

lemma detectNewsletter_transactional:
  "isTransactional e \<Longrightarrow>
     dr_type (detectNewsletter e stats) = Transactional
     \<and> confidence (detectNewsletter e stats) = 0.9"
  by (simp add: detectNewsletter_def)

text \<open>
  Claim C5.  An email whose local part of the sender address, or whose subject, contains
  one of the transactional markers is classified \<open>transactional\<close> with confidence 0.9,
  whatever its unsubscribe header, labels, category, domain and headers are and whatever
  statistics the caller supplies: \<open>e\<close> and \<open>stats\<close> are arbitrary.
\<close>

theorem transactional_override:
  assumes "list_ex (\<lambda>p. includes_str (toLowerCase (splitOn CHR ''@'' (sender e) ! 0)) p)
             TRANSACTIONAL_PATTERNS
           \<or> list_ex (\<lambda>p. includes_str (toLowerCase (subject e)) p)
               transactionalSubjectPatterns"
  shows "dr_type (detectNewsletter e stats) = Transactional
         \<and> confidence (detectNewsletter e stats) = 0.9"
proof -
  have "list_ex (\<lambda>p. includes_str (toLowerCase (sender e)) p) TRANSACTIONAL_PATTERNS
        \<or> list_ex (\<lambda>p. includes_str (toLowerCase (subject e)) p)
             transactionalSubjectPatterns"
    using assms includes_local_part [of "sender e"] unfolding list_ex_iff by blast
  then have "isTransactional e"
    by (auto simp: isTransactional_def Let_def)
  then show ?thesis by (rule detectNewsletter_transactional)
qed

text \<open>
  C5 at an email from a marketing platform, labelled as a promotion, with an unsubscribe
  header and the best statistics, whose subject is a receipt.
\<close>

theorem transactional_override_witness:
  "list_ex (\<lambda>p. includes_str (toLowerCase (subject
       ((mockEmail ''5'' ''Dev Ops Weekly'' ''mailchimp.com'' ''Download your receipt #5'')
          \<lparr>labels := [''CATEGORY_PROMOTIONS'']\<rparr>))) p) transactionalSubjectPatterns
   \<and> dr_type (detectNewsletter
        ((mockEmail ''5'' ''Dev Ops Weekly'' ''mailchimp.com'' ''Download your receipt #5'')
          \<lparr>labels := [''CATEGORY_PROMOTIONS'']\<rparr>)
        (Some \<lparr>frequencyScore = 1, reputationScore = 1\<rparr>)) = Transactional
   \<and> confidence (detectNewsletter
        ((mockEmail ''5'' ''Dev Ops Weekly'' ''mailchimp.com'' ''Download your receipt #5'')
          \<lparr>labels := [''CATEGORY_PROMOTIONS'']\<rparr>)
        (Some \<lparr>frequencyScore = 1, reputationScore = 1\<rparr>)) = 0.9"
proof -
  let ?e = "(mockEmail ''5'' ''Dev Ops Weekly'' ''mailchimp.com'' ''Download your receipt #5'')
          \<lparr>labels := [''CATEGORY_PROMOTIONS'']\<rparr>"
  have m: "list_ex (\<lambda>p. includes_str (toLowerCase (subject ?e)) p)
             transactionalSubjectPatterns"
    by code_simp
  from transactional_override [of ?e "Some \<lparr>frequencyScore = 1, reputationScore = 1\<rparr>"] m
  show ?thesis by blast
qed

subsection \<open>The unsubscribe signal\<close>

text \<open>
  The scores are real numbers in this model, so the sums below are exact; the claim is
  about the order of two scores that differ in one summand.
\<close>

lemma finalScore_mono:
  assumes "checkListUnsubscribe e \<le> checkListUnsubscribe e'"
    and "checkProviderCategory e' = checkProviderCategory e"
    and "checkSenderDomain e' = checkSenderDomain e"
    and "analyzeHeaders e' = analyzeHeaders e"
  shows "finalScore e stats \<le> finalScore e' stats"
  using assms by (simp add: finalScore_def Let_def)

lemma listUnsubscribe_only:
  "checkProviderCategory (e\<lparr>listUnsubscribe := lu\<rparr>) = checkProviderCategory e"
  "checkSenderDomain (e\<lparr>listUnsubscribe := lu\<rparr>) = checkSenderDomain e"
  "analyzeHeaders (e\<lparr>listUnsubscribe := lu\<rparr>) = analyzeHeaders e"
  "isTransactional (e\<lparr>listUnsubscribe := lu\<rparr>) = isTransactional e"
  "isLikelyPersonalSender (e\<lparr>listUnsubscribe := lu\<rparr>) = isLikelyPersonalSender e"
  by (simp_all add: checkProviderCategory_def checkSenderDomain_def analyzeHeaders_def
      isTransactional_def isLikelyPersonalSender_def)

lemma confidence_mono:
  assumes "checkListUnsubscribe e \<le> checkListUnsubscribe (e\<lparr>listUnsubscribe := lu\<rparr>)"
  shows "finalScore e stats \<le> finalScore (e\<lparr>listUnsubscribe := lu\<rparr>) stats
         \<and> confidence (detectNewsletter e stats)
            \<le> confidence (detectNewsletter (e\<lparr>listUnsubscribe := lu\<rparr>) stats)"
proof -
  have s: "finalScore e stats \<le> finalScore (e\<lparr>listUnsubscribe := lu\<rparr>) stats"
    using assms by (intro finalScore_mono) (simp_all add: listUnsubscribe_only)
  then have "min (finalScore e stats) 1 \<le> min (finalScore (e\<lparr>listUnsubscribe := lu\<rparr>) stats) 1"
    by simp
  then have "confidence (detectNewsletter e stats)
            \<le> confidence (detectNewsletter (e\<lparr>listUnsubscribe := lu\<rparr>) stats)"
    by (simp add: detectNewsletter_def listUnsubscribe_only Let_def)
  with s show ?thesis by simp
qed

text \<open>
  Claim C8.  Let \<open>e'\<close> be \<open>e\<close> with an HTTP unsubscribe URL added where \<open>e\<close> had none, or
  with a mailto address added where \<open>e\<close> had none, and nothing else changed.  Then the
  weighted score of \<open>e'\<close> is at least that of \<open>e\<close>, and so is the confidence
  \<open>detectNewsletter\<close> returns, for every email and all sender statistics (for an email
  that an override classifies, the confidence is the same).
\<close>

theorem unsubscribe_header_monotone:
  assumes "(http (listUnsubscribe e) = None
              \<and> e' = e\<lparr>listUnsubscribe := (listUnsubscribe e)\<lparr>http := Some header\<rparr>\<rparr>)
           \<or> (mailto (listUnsubscribe e) = None
              \<and> e' = e\<lparr>listUnsubscribe := (listUnsubscribe e)\<lparr>mailto := Some header\<rparr>\<rparr>)"
  shows "finalScore e stats \<le> finalScore e' stats
         \<and> confidence (detectNewsletter e stats) \<le> confidence (detectNewsletter e' stats)"
proof -
  from assms obtain lu where e': "e' = e\<lparr>listUnsubscribe := lu\<rparr>"
    and up: "checkListUnsubscribe e \<le> checkListUnsubscribe (e\<lparr>listUnsubscribe := lu\<rparr>)"
    by (auto simp: checkListUnsubscribe_def truthy_def)
  from confidence_mono [OF up] show ?thesis unfolding e' .
qed

text \<open>
  C8 at an email without unsubscribe header and without statistics: the score rises from
  0.125 to 0.475 when an HTTP unsubscribe URL is added.
\<close>

theorem unsubscribe_header_monotone_witness:
  "http (listUnsubscribe ((mockEmail ''7'' ''Dev Ops Weekly'' ''dev.to'' ''Did you miss this?'')
           \<lparr>listUnsubscribe := \<lparr>http = None, mailto = None\<rparr>\<rparr>)) = None
   \<and> finalScore ((mockEmail ''7'' ''Dev Ops Weekly'' ''dev.to'' ''Did you miss this?'')
           \<lparr>listUnsubscribe := \<lparr>http = None, mailto = None\<rparr>\<rparr>) None = 0.125
   \<and> finalScore ((mockEmail ''7'' ''Dev Ops Weekly'' ''dev.to'' ''Did you miss this?'')
           \<lparr>listUnsubscribe := \<lparr>http = Some ''https://dev.to/unsubscribe'', mailto = None\<rparr>\<rparr>)
         None = 0.475
   \<and> finalScore ((mockEmail ''7'' ''Dev Ops Weekly'' ''dev.to'' ''Did you miss this?'')
           \<lparr>listUnsubscribe := \<lparr>http = None, mailto = None\<rparr>\<rparr>) None
       \<le> finalScore ((mockEmail ''7'' ''Dev Ops Weekly'' ''dev.to'' ''Did you miss this?'')
           \<lparr>listUnsubscribe := \<lparr>http = Some ''https://dev.to/unsubscribe'', mailto = None\<rparr>\<rparr>)
         None
   \<and> confidence (detectNewsletter
         ((mockEmail ''7'' ''Dev Ops Weekly'' ''dev.to'' ''Did you miss this?'')
           \<lparr>listUnsubscribe := \<lparr>http = None, mailto = None\<rparr>\<rparr>) None)
       \<le> confidence (detectNewsletter
         ((mockEmail ''7'' ''Dev Ops Weekly'' ''dev.to'' ''Did you miss this?'')
           \<lparr>listUnsubscribe := \<lparr>http = Some ''https://dev.to/unsubscribe'', mailto = None\<rparr>\<rparr>)
         None)"
proof -
  let ?e = "(mockEmail ''7'' ''Dev Ops Weekly'' ''dev.to'' ''Did you miss this?'')
           \<lparr>listUnsubscribe := \<lparr>http = None, mailto = None\<rparr>\<rparr>"
  let ?e' = "(mockEmail ''7'' ''Dev Ops Weekly'' ''dev.to'' ''Did you miss this?'')
           \<lparr>listUnsubscribe := \<lparr>http = Some ''https://dev.to/unsubscribe'', mailto = None\<rparr>\<rparr>"
  have absent: "http (listUnsubscribe ?e) = None" by simp
  have added: "?e' = ?e\<lparr>listUnsubscribe := (listUnsubscribe ?e)\<lparr>http := Some ''https://dev.to/unsubscribe''\<rparr>\<rparr>"
    by simp
  have before: "finalScore ?e None = 0.125" by code_simp
  have after: "finalScore ?e' None = 0.475" by code_simp
  from unsubscribe_header_monotone [of ?e ?e' "''https://dev.to/unsubscribe''" None] absent added
  have "finalScore ?e None \<le> finalScore ?e' None
        \<and> confidence (detectNewsletter ?e None) \<le> confidence (detectNewsletter ?e' None)"
    by blast
  with absent before after show ?thesis by simp
qed

section \<open>Properties of the unsubscribe and block engines\<close>




text \<open>
  Claim C9.  For an email that passes the sender gate: if the filter is created and the
  bulk move to trash of the sender's existing emails answers false, \<open>blockSender\<close>
  succeeds, with \<open>emailsDeleted = 0\<close> and the id of the created filter in the metadata;
  if the creation of the filter answers \<open>success = false\<close>, \<open>blockSender\<close> fails.
\<close>

theorem blockSender_partial_success:
  assumes "allowed (canBlockSender e)"
  shows "(createFilter options (sender e) = Inr \<lparr>fr_success = True, fr_filterId = fid\<rparr>
          \<and> getEmailsFromSender options (sender e) = Inr existing
          \<and> deleteEmails options existing = Inr False
          \<longrightarrow> blockSender tok e options =
                Inr \<lparr>br_success = True, br_action = BlockAction, br_undoToken = Some tok,
                     br_metadata = \<lparr>bm_sender = sender e, bm_domain = senderDomain e,
                                    filterId = fid, emailsDeleted = 0\<rparr>\<rparr>)
       \<and> (createFilter options (sender e) = Inr \<lparr>fr_success = False, fr_filterId = fid\<rparr>
          \<longrightarrow> blockSender tok e options =
                Inr \<lparr>br_success = False, br_action = BlockAction, br_undoToken = None,
                     br_metadata = \<lparr>bm_sender = sender e, bm_domain = senderDomain e,
                                    filterId = None, emailsDeleted = 0\<rparr>\<rparr>)"
  using assms by (simp add: blockSender_def Let_def await_def deleteExisting_def)

text \<open>
  C9 at an email that passes the gate, once with a provider whose bulk move fails and
  once with one whose filter creation fails.
\<close>

theorem blockSender_partial_success_witness:
  "allowed (canBlockSender (mockEmail ''7'' ''Dev Ops Weekly'' ''dev.to'' ''Did you miss this?''))
   \<and> blockSender ''token-2'' (mockEmail ''7'' ''Dev Ops Weekly'' ''dev.to'' ''Did you miss this?'')
        \<lparr>createFilter = (\<lambda>s. Inr \<lparr>fr_success = True, fr_filterId = Some ''filter-9''\<rparr>),
         deleteEmails = (\<lambda>messageIds. Inr False),
         getEmailsFromSender = (\<lambda>s. Inr [''g-7'', ''g-8'']),
         bo_confirmUnsafe = None\<rparr>
       = Inr \<lparr>br_success = True, br_action = BlockAction, br_undoToken = Some ''token-2'',
              br_metadata = \<lparr>bm_sender = ''contact@dev.to'', bm_domain = ''dev.to'',
                             filterId = Some ''filter-9'', emailsDeleted = 0\<rparr>\<rparr>
   \<and> blockSender ''token-2'' (mockEmail ''7'' ''Dev Ops Weekly'' ''dev.to'' ''Did you miss this?'')
        \<lparr>createFilter = (\<lambda>s. Inr \<lparr>fr_success = False, fr_filterId = None\<rparr>),
         deleteEmails = (\<lambda>messageIds. Inr True),
         getEmailsFromSender = (\<lambda>s. Inr [''g-7'', ''g-8'']),
         bo_confirmUnsafe = None\<rparr>
       = Inr \<lparr>br_success = False, br_action = BlockAction, br_undoToken = None,
              br_metadata = \<lparr>bm_sender = ''contact@dev.to'', bm_domain = ''dev.to'',
                             filterId = None, emailsDeleted = 0\<rparr>\<rparr>"
proof -
  let ?e = "mockEmail ''7'' ''Dev Ops Weekly'' ''dev.to'' ''Did you miss this?''"
  let ?o1 = "\<lparr>createFilter = (\<lambda>s. Inr \<lparr>fr_success = True, fr_filterId = Some ''filter-9''\<rparr>),
         deleteEmails = (\<lambda>messageIds. Inr False :: bool promise),
         getEmailsFromSender = (\<lambda>s. Inr [''g-7'', ''g-8''] :: string list promise),
         bo_confirmUnsafe = None\<rparr>"
  let ?o2 = "\<lparr>createFilter = (\<lambda>s. Inr \<lparr>fr_success = False, fr_filterId = None\<rparr>),
         deleteEmails = (\<lambda>messageIds. Inr True :: bool promise),
         getEmailsFromSender = (\<lambda>s. Inr [''g-7'', ''g-8''] :: string list promise),
         bo_confirmUnsafe = None\<rparr>"
  have gate: "allowed (canBlockSender ?e)" by code_simp
  have fields: "sender ?e = ''contact@dev.to''" "senderDomain ?e = ''dev.to''"
    by (simp_all add: mockEmail_def)
  from blockSender_partial_success [OF gate, of ?o1 "Some ''filter-9''" "[''g-7'', ''g-8'']"
      "''token-2''"]
  have one: "blockSender ''token-2'' ?e ?o1 =
      Inr \<lparr>br_success = True, br_action = BlockAction, br_undoToken = Some ''token-2'',
           br_metadata = \<lparr>bm_sender = sender ?e, bm_domain = senderDomain ?e,
                          filterId = Some ''filter-9'', emailsDeleted = 0\<rparr>\<rparr>"
    by simp
  from blockSender_partial_success [OF gate, of ?o2 None "[]" "''token-2''"]
  have two: "blockSender ''token-2'' ?e ?o2 =
      Inr \<lparr>br_success = False, br_action = BlockAction, br_undoToken = None,
           br_metadata = \<lparr>bm_sender = sender ?e, bm_domain = senderDomain ?e,
                          filterId = None, emailsDeleted = 0\<rparr>\<rparr>"
    by simp
  from gate one two show ?thesis by (simp only: fields simp_thms)
qed

section \<open>Properties of the action engine\<close>

text \<open>
  Claim C4.  Where the store still holds a record for the token and more than the undo
  window has passed since the record's timestamp, \<open>undoAction\<close> answers with the error
  \<open>Undo window has expired\<close> and leaves the store without the record.
\<close>

theorem undoAction_window_expired:
  assumes "undoStore token = Some undoData"
    and "t - timestamp undoData > undoWindowMs"
  shows "undoAction api t token undoStore =
           (\<lparr>undo_success = False, undo_error = Some ''Undo window has expired''\<rparr>,
            undoStore(token := None))"
  using assms by (simp add: undoAction_def)

text \<open>C4 at a record stored at time 1000 and an undo at time 31001.\<close>

theorem undoAction_window_expired_witness:
  "(Map.empty(''t1'' \<mapsto> \<lparr>u_action = Delete, u_emailId = ''1'', u_providerId = ''g-1'',
        u_sender = ''contact@spam.com'', u_domain = ''spam.com'', u_filterId = None,
        u_messageIds = None, timestamp = 1000\<rparr>)) ''t1''
     = Some \<lparr>u_action = Delete, u_emailId = ''1'', u_providerId = ''g-1'',
        u_sender = ''contact@spam.com'', u_domain = ''spam.com'', u_filterId = None,
        u_messageIds = None, timestamp = 1000\<rparr>
   \<and> 31001 - (1000::int) > undoWindowMs
   \<and> fst (undoAction (stubGmail True) 31001 ''t1''
        (Map.empty(''t1'' \<mapsto> \<lparr>u_action = Delete, u_emailId = ''1'', u_providerId = ''g-1'',
        u_sender = ''contact@spam.com'', u_domain = ''spam.com'', u_filterId = None,
        u_messageIds = None, timestamp = 1000\<rparr>)))
       = \<lparr>undo_success = False, undo_error = Some ''Undo window has expired''\<rparr>
   \<and> snd (undoAction (stubGmail True) 31001 ''t1''
        (Map.empty(''t1'' \<mapsto> \<lparr>u_action = Delete, u_emailId = ''1'', u_providerId = ''g-1'',
        u_sender = ''contact@spam.com'', u_domain = ''spam.com'', u_filterId = None,
        u_messageIds = None, timestamp = 1000\<rparr>))) ''t1'' = None"
proof -
  let ?d = "\<lparr>u_action = Delete, u_emailId = ''1'', u_providerId = ''g-1'',
        u_sender = ''contact@spam.com'', u_domain = ''spam.com'', u_filterId = None,
        u_messageIds = None, timestamp = 1000\<rparr>"
  let ?s = "Map.empty(''t1'' \<mapsto> ?d)"
  have present: "?s ''t1'' = Some ?d" by simp
  have late: "31001 - timestamp ?d > undoWindowMs" by (simp add: undoWindowMs_def)
  from undoAction_window_expired [of ?s "''t1''" ?d 31001 "stubGmail True"] present late
  show ?thesis by simp
qed

text \<open>
  Claim C2.  \<open>executeAction\<close> with \<open>keep\<close> succeeds and returns the token and the expiry,
  but it stores no undo record, as every other successful action does: the store is left
  as it was.  So on a store that was empty before, \<open>undoAction\<close> with the returned token,
  at any time, answers \<open>Undo token not found or expired\<close>, and the branch of
  \<open>undoAction\<close> for \<open>keep\<close> is not reached with a token that \<open>keep\<close> returned.
\<close>

theorem keep_then_undo_not_found:
  "fst (executeAction env Keep e options undoStore)
     = Inr \<lparr>success = True, action = Keep, undoToken = Some (uuid env),
            undoExpiry = Some (now env + undoWindowMs),
            metadata = MetaKeep (email_id e) (sender e) (senderDomain e)\<rparr>
   \<and> snd (executeAction env Keep e options undoStore) = undoStore
   \<and> undoAction api t (uuid env) (snd (executeAction env Keep e options Map.empty))
     = (\<lparr>undo_success = False, undo_error = Some ''Undo token not found or expired''\<rparr>,
        Map.empty)"
  by (simp add: executeAction_def undoAction_def Let_def)

end
